theory Spec2Isabelle
  imports Main
begin

section \<open>The FastHTML AppImage demo application (src/app.py)\<close>

text \<open>
  A shallow embedding of \<^verbatim>\<open>src/app.py\<close>. Module-level variables are the fields of
  the record \<open>app\<close>; everything the program reads from or does to its process (environment
  variables, working directory, sockets, clock, spawned processes, printed lines) is a
  field of the record \<open>world\<close>, passed in and returned. A Python exception is a value of
  \<open>exn\<close>, returned as \<open>Inl\<close>.
\<close>

subsection \<open>Python values and library functions the program calls\<close>

datatype exn = ValueError | IndexError | FileNotFoundError | PermissionError | OSError
  | FileExistsError

text \<open>
  Strings are lists of characters, a character being a code point below 256.
  \<open>str(i)\<close> for an integer \<open>i\<close>, which is also what
  an f-string field \<^verbatim>\<open>{i}\<close> renders: the decimal numeral, with a minus sign when
  negative. (The interpreter's optional limit on the length of such conversions, which
  concerns numerals of more than 640 digits, is left out.)
\<close>

definition digit_char :: "nat \<Rightarrow> char" where
  "digit_char d = char_of (48 + d)"

function str_nat :: "nat \<Rightarrow> string" where
  "str_nat n = (if n < 10 then [digit_char n] else str_nat (n div 10) @ [digit_char (n mod 10)])"
  by pat_completeness auto
termination
  by (relation "measure (\<lambda>n. n)") auto

declare str_nat.simps [simp del]

definition str_int :: "int \<Rightarrow> string" where
  "str_int i = (if i < 0 then CHR ''-'' # str_nat (nat (- i)) else str_nat (nat i))"

text \<open>
  \<open>str.lower()\<close>. Only the letters A to Z are mapped. Outside ASCII, the one character
  whose lower-case form is a plain ASCII string is the Kelvin sign (giving \<open>k\<close>), so for
  the comparisons the program makes with the result (\<open>none\<close>, \<open>app\<close>) this table is exact.
\<close>

definition lower_char :: "char \<Rightarrow> char" where
  "lower_char c = (if 65 \<le> (of_char c :: nat) \<and> (of_char c :: nat) \<le> 90
                   then char_of ((of_char c :: nat) + 32) else c)"

definition lower :: "string \<Rightarrow> string" where
  "lower s = map lower_char s"

text \<open>
  \<open>int(s)\<close> for a string \<open>s\<close>: white space is stripped at both ends, then an
  optional sign, then decimal digits, where single underscores may stand between digits.
  Anything else raises \<open>ValueError\<close>.
\<close>

definition is_space :: "char \<Rightarrow> bool" where
  "is_space c = ((of_char c :: nat) \<in> set [9, 10, 11, 12, 13, 28, 29, 30, 31, 32, 133, 160])"

definition strip :: "string \<Rightarrow> string" where
  "strip s = rev (dropWhile is_space (rev (dropWhile is_space s)))"

definition is_digit :: "char \<Rightarrow> bool" where
  "is_digit c = (48 \<le> (of_char c :: nat) \<and> (of_char c :: nat) \<le> 57)"

definition digit_val :: "char \<Rightarrow> nat" where
  "digit_val c = (of_char c :: nat) - 48"

text \<open>
  The scan of the digits: \<open>prev_us\<close> says that the previous character was an underscore
  (or that no character has been read yet), where an underscore or the end is refused.
\<close>

fun scan_digits :: "bool \<Rightarrow> nat \<Rightarrow> string \<Rightarrow> nat option" where
  "scan_digits prev_us acc [] = (if prev_us then None else Some acc)"
| "scan_digits prev_us acc (c # cs) =
     (if is_digit c then scan_digits False (10 * acc + digit_val c) cs
      else if c = CHR ''_'' \<and> \<not> prev_us then scan_digits True acc cs
      else None)"

definition py_int :: "string \<Rightarrow> exn + int" where
  "py_int s =
     (let t = strip s;
          (neg, body) = (case t of
              c # cs \<Rightarrow> if c = CHR ''-'' then (True, cs)
                        else if c = CHR ''+'' then (False, cs) else (False, t)
            | [] \<Rightarrow> (False, t))
      in case scan_digits True 0 body of
           None \<Rightarrow> Inl ValueError
         | Some n \<Rightarrow> Inr (if neg then - int n else int n))"

text \<open>\<open>os.environ.get(key, default)\<close> and the truth value of \<open>os.environ.get(key)\<close>.\<close>

definition environ_get :: "(string \<rightharpoonup> string) \<Rightarrow> string \<Rightarrow> string \<Rightarrow> string" where
  "environ_get e k d = (case e k of None \<Rightarrow> d | Some v \<Rightarrow> v)"

definition environ_truthy :: "(string \<rightharpoonup> string) \<Rightarrow> string \<Rightarrow> bool" where
  "environ_truthy e k = (case e k of None \<Rightarrow> False | Some v \<Rightarrow> v \<noteq> [])"

subsection \<open>Markup\<close>

text \<open>
  The value a component constructor returns: its name as the source writes it, its
  positional arguments (children) and its keyword arguments (attributes).
\<close>

datatype attr = SAttr string | BAttr bool

datatype ft = FT string "ft list" "(string \<times> attr) list" | Str string | PyNone

subsection \<open>Module state\<close>

record app =
  PORT :: int
  HOST :: string
  WORK_DIR :: string
  todos :: "string list"
  counter :: int

text \<open>The module-level assignments \<open>todos = []\<close> and \<open>counter = 0\<close>.\<close>

definition initial_app :: "int \<Rightarrow> string \<Rightarrow> string \<Rightarrow> app" where
  "initial_app port host work_dir =
     \<lparr>PORT = port, HOST = host, WORK_DIR = work_dir, todos = [], counter = 0\<rparr>"

subsection \<open>The handlers that change state\<close>

definition increment :: "app \<Rightarrow> ft \<times> app" where
  "increment s =
     (let s' = s\<lparr>counter := counter s + 1\<rparr>
      in (FT ''Span'' [Str (''Count: '' @ str_int (counter s'))] [(''id'', SAttr ''counter'')], s'))"

definition add_todo :: "string \<Rightarrow> app \<Rightarrow> ft \<times> app" where
  "add_todo task s =
     (let s' = s\<lparr>todos := todos s @ [task]\<rparr>
      in (FT ''Ul'' (map (\<lambda>todo. FT ''Li'' [Str todo] []) (todos s')) [(''id'', SAttr ''todo-list'')], s'))"

subsection \<open>The process and its surroundings\<close>

record datetime =
  year :: nat
  month :: nat
  day :: nat
  hour :: nat
  minute :: nat
  second :: nat

text \<open>
  What the process does that can be observed from outside: a line printed, a call of
  \<open>subprocess.Popen\<close> with its command and the exception it raised (\<open>None\<close>: the
  process was spawned), a call of \<open>webbrowser.open\<close>, a call of \<open>uvicorn.run\<close> with
  its host and port, and the report of an exception that ended a thread.
\<close>

datatype effect = Print string | Popen "string list" "exn option" | WebbrowserOpen string
  | UvicornRun string int | ThreadException exn

text \<open>
  \<open>dirs\<close> are the directories that exist (a file system without symbolic links, paths
  as strings); \<open>temp_names\<close> are the names \<open>tempfile\<close>'s random name generator yields;
  \<open>listeners\<close> are the TCP ports bound on the host; \<open>port_offers\<close> are the ports the
  operating system considers, in this order, for a socket bound to port 0;
  \<open>popen_error\<close> is what spawning a command raises.
\<close>

record world =
  environ :: "string \<rightharpoonup> string"
  pid :: nat
  cwd :: string
  dirs :: "string list"
  tempdir :: string
  temp_names :: "string list"
  listeners :: "nat list"
  port_offers :: "nat list"
  now :: datetime
  platform_system :: string
  platform_release :: string
  sys_version :: string
  sys_platform :: string
  popen_error :: "string list \<Rightarrow> exn option"
  effects :: "effect list"

definition print :: "string \<Rightarrow> world \<Rightarrow> world" where
  "print line w = w\<lparr>effects := effects w @ [Print line]\<rparr>"

definition webbrowser_open :: "string \<Rightarrow> world \<Rightarrow> world" where
  "webbrowser_open url w = w\<lparr>effects := effects w @ [WebbrowserOpen url]\<rparr>"

text \<open>
  A socket is its local port, \<open>None\<close> while it is not bound. \<open>bind(('', 0))\<close>: the
  operating system binds the socket to the first port it considers that no socket is bound
  to, and fails when there is none. \<open>getsockname()[1]\<close> is the local port, 0 for a
  socket that is not bound. \<open>close()\<close> releases the port.
\<close>

type_synonym sock = "nat option"

definition sock_bind0 :: "sock \<Rightarrow> world \<Rightarrow> (exn + sock) \<times> world" where
  "sock_bind0 s w =
     (case find (\<lambda>p. p \<notin> set (listeners w)) (port_offers w) of
        None \<Rightarrow> (Inl OSError, w)
      | Some p \<Rightarrow> (Inr (Some p), w\<lparr>listeners := p # listeners w\<rparr>))"

definition sock_port :: "sock \<Rightarrow> nat" where
  "sock_port s = (case s of None \<Rightarrow> 0 | Some p \<Rightarrow> p)"

definition sock_close :: "sock \<Rightarrow> world \<Rightarrow> world" where
  "sock_close s w = (case s of None \<Rightarrow> w | Some p \<Rightarrow> w\<lparr>listeners := remove1 p (listeners w)\<rparr>)"

text \<open>\<open>os.path.join\<close> of two components, and \<open>os.chdir\<close>.\<close>

definition path_join :: "string \<Rightarrow> string \<Rightarrow> string" where
  "path_join d f = (if d = [] \<or> last d = CHR ''/'' then d @ f else d @ CHR ''/'' # f)"

definition os_chdir :: "string \<Rightarrow> world \<Rightarrow> (exn + unit) \<times> world" where
  "os_chdir p w = (if p \<in> set (dirs w) then (Inr (), w\<lparr>cwd := p\<rparr>) else (Inl FileNotFoundError, w))"

text \<open>
  \<open>tempfile.mkdtemp(prefix=...)\<close>: up to \<open>TMP_MAX\<close> = 10000 generated names are tried
  in the temporary directory; a name that exists already is passed over, the first that
  does not is created and returned.
\<close>

definition mkdtemp :: "string \<Rightarrow> world \<Rightarrow> (exn + string) \<times> world" where
  "mkdtemp prefix w =
     (case find (\<lambda>p. p \<notin> set (dirs w))
             (map (\<lambda>name. path_join (tempdir w) (prefix @ name)) (take 10000 (temp_names w))) of
        None \<Rightarrow> (Inl FileExistsError, w)
      | Some p \<Rightarrow> (Inr p, w\<lparr>dirs := p # dirs w\<rparr>))"

text \<open>\<open>datetime.strftime('%Y-%m-%d %H:%M:%S')\<close>, and \<open>s.split()[0]\<close>.\<close>

definition zero_pad :: "nat \<Rightarrow> nat \<Rightarrow> string" where
  "zero_pad width n = replicate (width - length (str_nat n)) CHR ''0'' @ str_nat n"

definition strftime :: "datetime \<Rightarrow> string" where
  "strftime t =
     zero_pad 4 (year t) @ ''-'' @ zero_pad 2 (month t) @ ''-'' @ zero_pad 2 (day t) @ '' '' @
     zero_pad 2 (hour t) @ '':'' @ zero_pad 2 (minute t) @ '':'' @ zero_pad 2 (second t)"

definition split_first :: "string \<Rightarrow> exn + string" where
  "split_first s =
     (let t = dropWhile is_space s
      in if t = [] then Inl IndexError else Inr (takeWhile (\<lambda>c. \<not> is_space c) t))"

subsection \<open>Start-up: the module-level statements\<close>

text \<open>
  \<open>find_free_port\<close>: \<open>closing\<close> closes the socket on every way out of the block.
  (\<open>setsockopt\<close>, called after the bind, changes nothing that a world records.)
\<close>

definition find_free_port :: "world \<Rightarrow> (exn + nat) \<times> world" where
  "find_free_port w =
     (let s = None
      in case sock_bind0 s w of
           (Inl e, w1) \<Rightarrow> (Inl e, sock_close s w1)
         | (Inr s1, w1) \<Rightarrow> (Inr (sock_port s1), sock_close s1 w1))"

text \<open>Lines 26 and 27: \<open>PORT_ENV\<close> and \<open>PORT\<close>.\<close>

definition resolve_port :: "world \<Rightarrow> (exn + int) \<times> world" where
  "resolve_port w =
     (let PORT_ENV = environ_get (environ w) ''FASTHTML_PORT'' ''0''
      in if PORT_ENV \<noteq> ''0'' then (py_int PORT_ENV, w)
         else case find_free_port w of
                (Inl e, w1) \<Rightarrow> (Inl e, w1)
              | (Inr p, w1) \<Rightarrow> (Inr (int p), w1))"

text \<open>
  Lines 32 to 38: \<open>WORK_DIR\<close>. (\<open>Path\<close> is the identity on the absolute, normalised
  paths that \<open>mkdtemp\<close> and \<open>getcwd\<close> return.)
\<close>

definition setup_work_dir :: "world \<Rightarrow> (exn + string) \<times> world" where
  "setup_work_dir w =
     (if environ_truthy (environ w) ''APPIMAGE'' then
        (case mkdtemp ''fasthtml-app-'' w of
           (Inl e, w1) \<Rightarrow> (Inl e, w1)
         | (Inr work_dir, w1) \<Rightarrow>
             (case os_chdir work_dir w1 of
                (Inl e, w2) \<Rightarrow> (Inl e, w2)
              | (Inr _, w2) \<Rightarrow> (Inr work_dir, w2)))
      else (Inr (cwd w), w))"

definition startup :: "world \<Rightarrow> (exn + app) \<times> world" where
  "startup w =
     (case resolve_port w of
        (Inl e, w1) \<Rightarrow> (Inl e, w1)
      | (Inr port, w1) \<Rightarrow>
          (let host = environ_get (environ w1) ''FASTHTML_HOST'' ''127.0.0.1''
           in case setup_work_dir w1 of
                (Inl e, w2) \<Rightarrow> (Inl e, w2)
              | (Inr work_dir, w2) \<Rightarrow> (Inr (initial_app port host work_dir), w2)))"

subsection \<open>The handlers that read state\<close>

definition Li :: "string \<Rightarrow> ft" where
  "Li text = FT ''Li'' [Str text] []"

definition refresh_button :: ft where
  "refresh_button =
     FT ''Button'' [Str ''Refresh'']
       [(''hx_get'', SAttr ''/system-info''), (''hx_target'', SAttr ''#system-info''),
        (''hx_swap'', SAttr ''outerHTML'')]"

definition system_info :: "world \<Rightarrow> app \<Rightarrow> ft" where
  "system_info w s =
     (let info_list =
        (if environ_truthy (environ w) ''APPIMAGE'' then
           FT ''Ul''
             [Li (''Process ID: '' @ str_nat (pid w)),
              Li (''Working Directory: '' @ WORK_DIR s),
              Li ''AppImage: Yes'',
              Li (''Timestamp: '' @ strftime (now w))] []
         else
           FT ''Ul''
             [Li (''Process ID: '' @ str_nat (pid w)),
              Li (''Working Directory: '' @ cwd w),
              Li ''AppImage: No'',
              Li (''Timestamp: '' @ strftime (now w))] [])
      in FT ''Div'' [FT ''H2'' [Str ''System Information''] [], info_list, refresh_button]
           [(''id'', SAttr ''system-info'')])"

text \<open>The index page \<open>get\<close>; \<open>sys.version.split()[0]\<close> is its one partial step.\<close>

definition get :: "world \<Rightarrow> app \<Rightarrow> exn + ft" where
  "get w s =
     (case split_first (sys_version w) of
        Inl e \<Rightarrow> Inl e
      | Inr python_version \<Rightarrow>
          Inr (FT ''Container''
            [FT ''H1'' [Str ''FastHTML AppImage Demo''] [],
             FT ''P'' [Str (''Running on '' @ platform_system w @ '' '' @ platform_release w)] [],
             FT ''P'' [Str (''Python '' @ python_version @ '' | Server: '' @ HOST s @ '':'' @ str_int (PORT s))] [],
             FT ''Hr'' [] [],
             FT ''Div''
               [FT ''H2'' [Str ''Counter Demo''] [],
                FT ''Div''
                  [FT ''Button'' [Str ''Increment'']
                     [(''hx_post'', SAttr ''/increment''), (''hx_target'', SAttr ''#counter''),
                      (''hx_swap'', SAttr ''innerHTML'')],
                   FT ''Span'' [Str (''Count: '' @ str_int (counter s))]
                     [(''id'', SAttr ''counter''), (''style'', SAttr ''margin-left: 1rem;'')]] []] [],
             FT ''Hr'' [] [],
             FT ''Div''
               [FT ''H2'' [Str ''Todo List Demo''] [],
                FT ''Form''
                  [FT ''Input'' []
                     [(''type'', SAttr ''text''), (''name'', SAttr ''task''),
                      (''placeholder'', SAttr ''Enter a task...''), (''required'', BAttr True)],
                   FT ''Button'' [Str ''Add Task''] [(''type'', SAttr ''submit'')]]
                  [(''hx_post'', SAttr ''/add-todo''), (''hx_target'', SAttr ''#todo-list''),
                   (''hx_swap'', SAttr ''innerHTML''),
                   (''hx_on'', SAttr ''htmx:afterRequest: this.reset()'')],
                FT ''Ul'' (map (\<lambda>todo. FT ''Li'' [Str todo] []) (todos s))
                  [(''id'', SAttr ''todo-list'')]] [],
             FT ''Hr'' [] [],
             FT ''Div''
               [FT ''H2'' [Str ''System Information''] [],
                (if \<not> environ_truthy (environ w) ''APPIMAGE'' then
                   FT ''Ul''
                     [Li (''Process ID: '' @ str_nat (pid w)),
                      Li (''Working Directory: '' @ cwd w),
                      FT ''Li'' [if environ_truthy (environ w) ''APPIMAGE''
                                 then Str (''Temp Directory: '' @ WORK_DIR s) else PyNone] [],
                      Li (''AppImage: '' @ (if environ_truthy (environ w) ''APPIMAGE'' then ''Yes'' else ''No'')),
                      Li (''Timestamp: '' @ strftime (now w))] []
                 else
                   FT ''Ul''
                     [Li (''Process ID: '' @ str_nat (pid w)),
                      Li (''Working Directory: '' @ WORK_DIR s),
                      Li ''AppImage: Yes'',
                      Li (''Timestamp: '' @ strftime (now w))] []),
                refresh_button]
               [(''id'', SAttr ''system-info'')],
             FT ''Hr'' [] [],
             FT ''Div''
               [FT ''H2'' [Str ''Launch Options''] [],
                FT ''P'' [Str ''You can configure how this app opens:''] [],
                FT ''Ul''
                  [Li ''Set FASTHTML_BROWSER=app for standalone window mode'',
                   Li ''Set FASTHTML_BROWSER=none to not open browser automatically'',
                   Li ''Default: Opens in your default browser''] []] []] []))"

subsection \<open>Requests\<close>

text \<open>
  The four routes. A request is served in the world of its moment; an exception in a
  handler leaves the module state as the handler left it.
\<close>

datatype request = Get_index | Post_increment | Post_add_todo string | Get_system_info

definition handle :: "world \<Rightarrow> request \<Rightarrow> app \<Rightarrow> (exn + ft) \<times> app" where
  "handle w r s =
     (case r of
        Get_index \<Rightarrow> (get w s, s)
      | Post_increment \<Rightarrow> (case increment s of (page, s') \<Rightarrow> (Inr page, s'))
      | Post_add_todo task \<Rightarrow> (case add_todo task s of (page, s') \<Rightarrow> (Inr page, s'))
      | Get_system_info \<Rightarrow> (Inr (system_info w s), s))"

fun serve :: "(world \<times> request) list \<Rightarrow> app \<Rightarrow> app" where
  "serve [] s = s"
| "serve ((w, r) # rest) s = serve rest (snd (handle w r s))"

subsection \<open>The browser launcher\<close>

text \<open>
  The \<open>for\<close> loop over the browser commands. The result \<open>True\<close> is the \<open>return\<close>
  after a spawn; \<open>False\<close> is the end of the loop; an exception other than
  \<open>FileNotFoundError\<close> leaves the loop as it is.
\<close>

fun try_browsers :: "string list list \<Rightarrow> world \<Rightarrow> (exn + bool) \<times> world" where
  "try_browsers [] w = (Inr False, w)"
| "try_browsers (browser_cmd # rest) w =
     (let outcome = popen_error w browser_cmd;
          w1 = w\<lparr>effects := effects w @ [Popen browser_cmd outcome]\<rparr>
      in case outcome of
           None \<Rightarrow> (Inr True, w1)
         | Some e \<Rightarrow> if e = FileNotFoundError then try_browsers rest w1 else (Inl e, w1))"

definition browsers :: "string \<Rightarrow> string list list" where
  "browsers url =
     [[''google-chrome'', ''--app='' @ url],
      [''chromium'', ''--app='' @ url],
      [''firefox'', ''--new-window'', url]]"

definition open_browser :: "string \<Rightarrow> world \<Rightarrow> (exn + unit) \<times> world" where
  "open_browser url w =
     (let browser_mode = lower (environ_get (environ w) ''FASTHTML_BROWSER'' ''default'')
      in if browser_mode = ''none'' then
           (Inr (), print ''Browser auto-open disabled. Please open manually.''
                      (print (''Server running at '' @ url) w))
         else
           (case (if browser_mode = ''app'' then
                    (let w1 = print (''Opening in app mode at '' @ url) w
                     in if sys_platform w1 = ''linux'' then try_browsers (browsers url) w1
                        else (Inr False, w1))
                  else (Inr False, w)) of
              (Inl e, w2) \<Rightarrow> (Inl e, w2)
            | (Inr True, w2) \<Rightarrow> (Inr (), w2)
            | (Inr False, w2) \<Rightarrow>
                (Inr (), webbrowser_open url (print (''Opening in browser at '' @ url) w2))))"

subsection \<open>The main block\<close>

text \<open>
  \<open>threading.Timer(1.5, target).start()\<close>: the target runs on a thread of its own; an
  exception that leaves it is reported by the thread's exception hook and ends that thread,
  nothing else. \<open>uvicorn.run(app, host, port)\<close> starts the server, which from then on
  answers requests with the handlers (\<open>handle\<close>, \<open>serve\<close>).
\<close>

definition timer_thread :: "(world \<Rightarrow> (exn + unit) \<times> world) \<Rightarrow> world \<Rightarrow> world" where
  "timer_thread target w =
     (case target w of
        (Inl e, w1) \<Rightarrow> w1\<lparr>effects := effects w1 @ [ThreadException e]\<rparr>
      | (Inr u, w1) \<Rightarrow> w1)"

definition uvicorn_run :: "string \<Rightarrow> int \<Rightarrow> world \<Rightarrow> world" where
  "uvicorn_run host port w = w\<lparr>effects := effects w @ [UvicornRun host port]\<rparr>"

text \<open>
  The block under \<open>__main__\<close>. The timer is started first and fires 1.5 seconds later:
  its target comes after the two statements that follow the start.
\<close>

definition main :: "app \<Rightarrow> world \<Rightarrow> world" where
  "main s w =
     (let url = ''http://'' @ HOST s @ '':'' @ str_int (PORT s);
          w1 = print (''Starting FastHTML server on '' @ url) w;
          w2 = uvicorn_run (HOST s) (PORT s) w1
      in timer_thread (open_browser url) w2)"

subsection \<open>Runs of requests, and a world to evaluate in\<close>

text \<open>\<open>N\<close> calls of \<open>increment\<close>, and one call of \<open>add_todo\<close> for each task of a list.\<close>

primrec increments :: "nat \<Rightarrow> app \<Rightarrow> app" where
  "increments 0 s = s"
| "increments (Suc n) s = snd (increment (increments n s))"

fun add_todos :: "string list \<Rightarrow> app \<Rightarrow> app" where
  "add_todos [] s = s"
| "add_todos (task # rest) s = add_todos rest (snd (add_todo task s))"

text \<open>
  A world for evaluation: a Linux host with no browser installed, port 40000 in use and
  the temporary name \<open>aaa\<close> taken; then the same world with \<open>APPIMAGE\<close> set, with
  \<open>FASTHTML_BROWSER=App\<close>, and three ways the spawns of the browser commands can end.
\<close>

definition demo_world :: world where
  "demo_world =
     \<lparr>environ = Map.empty, pid = 4242, cwd = ''/home/u'',
      dirs = [''/home/u'', ''/tmp'', ''/tmp/fasthtml-app-aaa''],
      tempdir = ''/tmp'', temp_names = [''aaa'', ''bbb''],
      listeners = [40000, 8080], port_offers = [40000, 40001],
      now = \<lparr>year = 2024, month = 3, day = 9, hour = 7, minute = 5, second = 0\<rparr>,
      platform_system = ''Linux'', platform_release = ''6.1'',
      sys_version = ''3.11.4 (main)'', sys_platform = ''linux'',
      popen_error = (\<lambda>cmd. Some FileNotFoundError), effects = []\<rparr>"

definition packaged_world :: world where
  "packaged_world = demo_world\<lparr>environ := [''APPIMAGE'' \<mapsto> ''/opt/demo.AppImage'']\<rparr>"

definition demo_url :: string where
  "demo_url = ''http://127.0.0.1:40001''"

definition app_world :: world where
  "app_world = demo_world\<lparr>environ := [''FASTHTML_BROWSER'' \<mapsto> ''App'']\<rparr>"

definition chrome_denied :: "string list \<Rightarrow> exn option" where
  "chrome_denied cmd =
     (if cmd = [''google-chrome'', ''--app='' @ demo_url] then Some PermissionError
      else Some FileNotFoundError)"

definition firefox_denied :: "string list \<Rightarrow> exn option" where
  "firefox_denied cmd =
     (if cmd = [''firefox'', ''--new-window'', demo_url] then Some PermissionError
      else Some FileNotFoundError)"

definition chromium_installed :: "string list \<Rightarrow> exn option" where
  "chromium_installed cmd =
     (if cmd = [''chromium'', ''--app='' @ demo_url] then None else Some FileNotFoundError)"

section \<open>Auxiliary facts\<close>

lemma increment_state: "snd (increment s) = s\<lparr>counter := counter s + 1\<rparr>"
  by (simp add: increment_def Let_def)

lemma increment_page:
  "fst (increment s) = FT ''Span'' [Str (''Count: '' @ str_int (counter s + 1))] [(''id'', SAttr ''counter'')]"
  by (simp add: increment_def Let_def)

lemma increments_counter: "counter (increments N s) = counter s + int N"
  by (induction N) (simp_all add: increment_state)

lemma add_todo_state: "snd (add_todo task s) = s\<lparr>todos := todos s @ [task]\<rparr>"
  by (simp add: add_todo_def Let_def)

lemma add_todo_page:
  "fst (add_todo task s) =
     FT ''Ul'' (map (\<lambda>todo. FT ''Li'' [Str todo] []) (todos s @ [task])) [(''id'', SAttr ''todo-list'')]"
  by (simp add: add_todo_def Let_def)

lemma add_todos_todos: "todos (add_todos tasks s) = todos s @ tasks"
  by (induction tasks arbitrary: s) (simp_all add: add_todo_state)

lemma handle_counter:
  "counter (snd (handle w r s)) = (if r = Post_increment then counter s + 1 else counter s)"
  by (cases r) (simp_all add: handle_def increment_def add_todo_def Let_def)

lemma serve_counter:
  "counter (serve reqs s) = counter s + int (length (filter (\<lambda>x. snd x = Post_increment) reqs))"
  by (induction reqs s rule: serve.induct) (simp_all add: handle_counter)

lemma startup_counter: "fst (startup w) = Inr s \<Longrightarrow> counter s = 0"
  by (auto simp: startup_def initial_app_def Let_def split: prod.splits sum.splits)

lemma is_digit_digit_char: "d < 10 \<Longrightarrow> is_digit (digit_char d)"
  by (simp add: is_digit_def digit_char_def)

lemma digit_val_digit_char: "d < 10 \<Longrightarrow> digit_val (digit_char d) = d"
  by (simp add: digit_val_def digit_char_def)

lemma is_digit_plain:
  "is_digit c \<Longrightarrow> c \<noteq> CHR ''-'' \<and> c \<noteq> CHR ''+'' \<and> c \<noteq> CHR ''_'' \<and> \<not> is_space c"
  by (auto simp: is_digit_def is_space_def)

lemma str_nat_digits: "list_all is_digit (str_nat n)"
proof (induction n rule: str_nat.induct)
  case (1 n)
  show ?case
  proof (cases "n < 10")
    case True
    then show ?thesis
      by (subst str_nat.simps) (simp add: is_digit_digit_char)
  next
    case False
    with 1 show ?thesis
      by (subst str_nat.simps) (simp add: is_digit_digit_char)
  qed
qed

lemma str_nat_nonempty: "str_nat n \<noteq> []"
  by (subst str_nat.simps) simp

lemma str_nat_value: "foldl (\<lambda>a c. 10 * a + digit_val c) 0 (str_nat n) = n"
proof (induction n rule: str_nat.induct)
  case (1 n)
  show ?case
  proof (cases "n < 10")
    case True
    then show ?thesis
      by (subst str_nat.simps) (simp add: digit_val_digit_char)
  next
    case False
    with 1 show ?thesis
      by (subst str_nat.simps) (simp add: digit_val_digit_char)
  qed
qed

lemma scan_digits_all:
  "list_all is_digit xs \<Longrightarrow>
   scan_digits b acc xs =
     (if xs = [] then (if b then None else Some acc)
      else Some (foldl (\<lambda>a c. 10 * a + digit_val c) acc xs))"
  by (induction xs arbitrary: b acc) simp_all

lemma scan_digits_str_nat: "scan_digits True 0 (str_nat n) = Some n"
  by (simp add: scan_digits_all str_nat_digits str_nat_nonempty str_nat_value)

lemma strip_plain: "list_all (\<lambda>c. \<not> is_space c) s \<Longrightarrow> strip s = s"
proof -
  assume a: "list_all (\<lambda>c. \<not> is_space c) s"
  have d: "dropWhile is_space xs = xs" if "list_all (\<lambda>c. \<not> is_space c) xs" for xs
    using that by (cases xs) simp_all
  from a have "list_all (\<lambda>c. \<not> is_space c) (rev s)"
    by (simp add: list_all_iff)
  with a show ?thesis
    by (simp add: strip_def d)
qed

lemma str_nat_no_space: "list_all (\<lambda>c. \<not> is_space c) (str_nat n)"
  using str_nat_digits [of n] by (auto simp: list_all_iff dest: is_digit_plain)

lemma str_nat_hd: "\<exists>c cs. str_nat n = c # cs \<and> is_digit c"
  using str_nat_digits [of n] str_nat_nonempty [of n] by (cases "str_nat n") simp_all

lemma py_int_str_int: "py_int (str_int i) = Inr i"
proof (cases "i < 0")
  case True
  have "\<not> is_space CHR ''-''"
    by (simp add: is_space_def)
  then have "strip (CHR ''-'' # str_nat (nat (- i))) = CHR ''-'' # str_nat (nat (- i))"
    by (intro strip_plain) (simp add: str_nat_no_space)
  with True show ?thesis
    by (simp add: py_int_def str_int_def scan_digits_str_nat)
next
  case False
  obtain c cs where h: "str_nat (nat i) = c # cs" "is_digit c"
    using str_nat_hd by blast
  have s: "strip (str_nat (nat i)) = str_nat (nat i)"
    by (rule strip_plain) (rule str_nat_no_space)
  have "scan_digits True 0 (c # cs) = Some (nat i)"
    using scan_digits_str_nat [of "nat i"] h by simp
  with False h s is_digit_plain [OF h(2)] show ?thesis
    by (simp add: py_int_def str_int_def)
qed

lemma py_int_zero: "py_int ''0'' = Inr 0"
  by code_simp

lemma str_int_zero: "str_int n = ''0'' \<Longrightarrow> n = 0"
  using py_int_str_int [of n] py_int_zero by simp

lemma find_free_port_eq:
  "find_free_port w =
     (case find (\<lambda>p. p \<notin> set (listeners w)) (port_offers w) of
        None \<Rightarrow> (Inl OSError, w)
      | Some p \<Rightarrow> (Inr p, w))"
  by (simp add: find_free_port_def sock_bind0_def sock_close_def sock_port_def split: option.splits)

lemma resolve_port_world: "snd (resolve_port w) = w"
  by (simp add: resolve_port_def find_free_port_eq Let_def split: option.splits)

lemma find_Some_in: "find P xs = Some x \<Longrightarrow> x \<in> set xs \<and> P x"
  by (induction xs) (auto split: if_splits)

lemma setup_work_dir_packaged:
  "environ_truthy (environ w) ''APPIMAGE'' \<Longrightarrow>
   setup_work_dir w =
     (case find (\<lambda>p. p \<notin> set (dirs w))
             (map (\<lambda>name. path_join (tempdir w) (''fasthtml-app-'' @ name)) (take 10000 (temp_names w))) of
        None \<Rightarrow> (Inl FileExistsError, w)
      | Some p \<Rightarrow> (Inr p, w\<lparr>dirs := p # dirs w, cwd := p\<rparr>))"
  by (simp add: setup_work_dir_def mkdtemp_def os_chdir_def split: option.splits)

lemma setup_work_dir_plain:
  "\<not> environ_truthy (environ w) ''APPIMAGE'' \<Longrightarrow> setup_work_dir w = (Inr (cwd w), w)"
  by (simp add: setup_work_dir_def)

lemma startup_eq:
  "startup w =
     (case fst (resolve_port w) of
        Inl e \<Rightarrow> (Inl e, w)
      | Inr port \<Rightarrow>
          (case setup_work_dir w of
             (Inl e, w2) \<Rightarrow> (Inl e, w2)
           | (Inr work_dir, w2) \<Rightarrow>
               (Inr (initial_app port (environ_get (environ w) ''FASTHTML_HOST'' ''127.0.0.1'') work_dir), w2)))"
  using resolve_port_world [of w]
  by (cases "resolve_port w") (simp add: startup_def Let_def split: sum.splits prod.splits)

lemma system_info_eq:
  "system_info w s =
     FT ''Div''
       [FT ''H2'' [Str ''System Information''] [],
        FT ''Ul''
          [Li (''Process ID: '' @ str_nat (pid w)),
           Li (''Working Directory: '' @ (if environ_truthy (environ w) ''APPIMAGE'' then WORK_DIR s else cwd w)),
           Li (''AppImage: '' @ (if environ_truthy (environ w) ''APPIMAGE'' then ''Yes'' else ''No'')),
           Li (''Timestamp: '' @ strftime (now w))] [],
        refresh_button]
       [(''id'', SAttr ''system-info'')]"
  by (simp add: system_info_def)

lemma try_browsers_all_missing:
  "\<forall>c \<in> set cs. popen_error w c = Some FileNotFoundError \<Longrightarrow>
   try_browsers cs w =
     (Inr False, w\<lparr>effects := effects w @ map (\<lambda>c. Popen c (Some FileNotFoundError)) cs\<rparr>)"
  by (induction cs arbitrary: w) (simp_all add: Let_def)

lemma try_browsers_first_spawn:
  "\<forall>x \<in> set pre. popen_error w x = Some FileNotFoundError \<Longrightarrow> popen_error w c = None \<Longrightarrow>
   try_browsers (pre @ c # post) w =
     (Inr True, w\<lparr>effects := effects w @ map (\<lambda>x. Popen x (Some FileNotFoundError)) pre @ [Popen c None]\<rparr>)"
  by (induction pre arbitrary: w) (simp_all add: Let_def)

lemma try_browsers_first_error:
  "\<forall>x \<in> set pre. popen_error w x = Some FileNotFoundError \<Longrightarrow> popen_error w c = Some e \<Longrightarrow>
   e \<noteq> FileNotFoundError \<Longrightarrow>
   try_browsers (pre @ c # post) w =
     (Inl e, w\<lparr>effects := effects w @ map (\<lambda>x. Popen x (Some FileNotFoundError)) pre @ [Popen c (Some e)]\<rparr>)"
  by (induction pre arbitrary: w) (simp_all add: Let_def)

lemma try_browsers_effects: "\<exists>new. effects (snd (try_browsers cs w)) = effects w @ new"
proof (induction cs arbitrary: w)
  case Nil
  show ?case by simp
next
  case (Cons c cs)
  let ?w1 = "w\<lparr>effects := effects w @ [Popen c (popen_error w c)]\<rparr>"
  from Cons [of ?w1] obtain new where "effects (snd (try_browsers cs ?w1)) = effects ?w1 @ new"
    by blast
  then show ?case
    by (cases "popen_error w c") (auto simp: Let_def)
qed

lemma try_browsers_error:
  "fst (try_browsers cs w) = Inl e \<Longrightarrow>
   e \<noteq> FileNotFoundError \<and> (\<exists>c \<in> set cs. popen_error w c = Some e)"
proof (induction cs arbitrary: w)
  case Nil
  then show ?case by simp
next
  case (Cons c cs)
  let ?w1 = "w\<lparr>effects := effects w @ [Popen c (popen_error w c)]\<rparr>"
  show ?case
  proof (cases "popen_error w c")
    case None
    with Cons.prems show ?thesis by (simp add: Let_def)
  next
    case (Some x)
    show ?thesis
    proof (cases "x = FileNotFoundError")
      case True
      with Some Cons.prems have "fst (try_browsers cs ?w1) = Inl e"
        by (simp add: Let_def)
      from Cons.IH [OF this] show ?thesis by simp
    next
      case False
      with Some Cons.prems show ?thesis by (simp add: Let_def)
    qed
  qed
qed

lemma try_browsers_no_error:
  "list_all (\<lambda>c. popen_error w c = None \<or> popen_error w c = Some FileNotFoundError) cs \<Longrightarrow>
   \<exists>b. fst (try_browsers cs w) = Inr b"
  by (cases "fst (try_browsers cs w)") (auto dest!: try_browsers_error simp: list_all_iff)

lemma environ_effects_commute:
  "effects_update f (environ_update g w) = environ_update g (effects_update f w)"
  by simp

lemma try_browsers_environ:
  "try_browsers cs (w\<lparr>environ := e\<rparr>) =
     (fst (try_browsers cs w), (snd (try_browsers cs w))\<lparr>environ := e\<rparr>)"
proof (induction cs arbitrary: w)
  case Nil
  show ?case by simp
next
  case (Cons c cs)
  let ?w1 = "w\<lparr>effects := effects w @ [Popen c (popen_error w c)]\<rparr>"
  have "try_browsers (c # cs) (w\<lparr>environ := e\<rparr>) =
          (case popen_error w c of
             None \<Rightarrow> (Inr True, ?w1\<lparr>environ := e\<rparr>)
           | Some x \<Rightarrow> if x = FileNotFoundError then try_browsers cs (?w1\<lparr>environ := e\<rparr>)
                       else (Inl x, ?w1\<lparr>environ := e\<rparr>))"
    by (simp add: Let_def environ_effects_commute)
  also have "\<dots> = (fst (try_browsers (c # cs) w), (snd (try_browsers (c # cs) w))\<lparr>environ := e\<rparr>)"
    unfolding Cons [of ?w1] by (simp add: Let_def split: option.splits)
  finally show ?case .
qed

lemma open_browser_none_mode:
  "lower (environ_get (environ w) ''FASTHTML_BROWSER'' ''default'') = ''none'' \<Longrightarrow>
   open_browser url w =
     (Inr (), w\<lparr>effects := effects w @ [Print (''Server running at '' @ url),
                                         Print ''Browser auto-open disabled. Please open manually.'']\<rparr>)"
  by (simp add: open_browser_def print_def)

lemma open_browser_app_linux:
  "lower (environ_get (environ w) ''FASTHTML_BROWSER'' ''default'') = ''app'' \<Longrightarrow>
   sys_platform w = ''linux'' \<Longrightarrow>
   open_browser url w =
     (case try_browsers (browsers url)
             (w\<lparr>effects := effects w @ [Print (''Opening in app mode at '' @ url)]\<rparr>) of
        (Inl e, w2) \<Rightarrow> (Inl e, w2)
      | (Inr True, w2) \<Rightarrow> (Inr (), w2)
      | (Inr False, w2) \<Rightarrow>
          (Inr (), w2\<lparr>effects := effects w2 @ [Print (''Opening in browser at '' @ url),
                                                WebbrowserOpen url]\<rparr>))"
  by (simp add: open_browser_def print_def webbrowser_open_def Let_def
           split: prod.splits sum.splits bool.splits)

lemma open_browser_app_other:
  "lower (environ_get (environ w) ''FASTHTML_BROWSER'' ''default'') = ''app'' \<Longrightarrow>
   sys_platform w \<noteq> ''linux'' \<Longrightarrow>
   open_browser url w =
     (Inr (), w\<lparr>effects := effects w @ [Print (''Opening in app mode at '' @ url),
                                         Print (''Opening in browser at '' @ url),
                                         WebbrowserOpen url]\<rparr>)"
  by (simp add: open_browser_def print_def webbrowser_open_def Let_def)

lemma open_browser_default_mode:
  "lower (environ_get (environ w) ''FASTHTML_BROWSER'' ''default'') \<noteq> ''none'' \<Longrightarrow>
   lower (environ_get (environ w) ''FASTHTML_BROWSER'' ''default'') \<noteq> ''app'' \<Longrightarrow>
   open_browser url w =
     (Inr (), w\<lparr>effects := effects w @ [Print (''Opening in browser at '' @ url),
                                         WebbrowserOpen url]\<rparr>)"
  by (simp add: open_browser_def print_def webbrowser_open_def Let_def)

lemma open_browser_environ:
  assumes "lower (environ_get e ''FASTHTML_BROWSER'' ''default'') =
           lower (environ_get (environ w) ''FASTHTML_BROWSER'' ''default'')"
  shows "open_browser url (w\<lparr>environ := e\<rparr>) =
           (fst (open_browser url w), (snd (open_browser url w))\<lparr>environ := e\<rparr>)"
proof -
  let ?m = "lower (environ_get (environ w) ''FASTHTML_BROWSER'' ''default'')"
  let ?we = "w\<lparr>environ := e\<rparr>"
  from assms have m: "lower (environ_get (environ ?we) ''FASTHTML_BROWSER'' ''default'') = ?m"
    by simp
  consider (none) "?m = ''none''" | (app_linux) "?m = ''app''" "sys_platform w = ''linux''"
    | (app_other) "?m = ''app''" "sys_platform w \<noteq> ''linux''"
    | (default) "?m \<noteq> ''none''" "?m \<noteq> ''app''"
    by blast
  then show ?thesis
  proof cases
    case none
    with m show ?thesis
      by (simp add: open_browser_none_mode environ_effects_commute)
  next
    case app_linux
    let ?w1 = "w\<lparr>effects := effects w @ [Print (''Opening in app mode at '' @ url)]\<rparr>"
    from app_linux m have 1: "open_browser url ?we =
       (case try_browsers (browsers url) (?w1\<lparr>environ := e\<rparr>) of
        (Inl e, w2) \<Rightarrow> (Inl e, w2)
      | (Inr True, w2) \<Rightarrow> (Inr (), w2)
      | (Inr False, w2) \<Rightarrow>
          (Inr (), w2\<lparr>effects := effects w2 @ [Print (''Opening in browser at '' @ url),
                                                WebbrowserOpen url]\<rparr>))"
      by (simp add: open_browser_app_linux environ_effects_commute)
    show ?thesis
      unfolding 1 open_browser_app_linux [OF app_linux] try_browsers_environ
      by (simp add: environ_effects_commute split: prod.splits sum.splits bool.splits)
  next
    case app_other
    with m show ?thesis
      by (simp add: open_browser_app_other environ_effects_commute)
  next
    case default
    with m show ?thesis
      by (simp add: open_browser_default_mode environ_effects_commute)
  qed
qed

lemma printed_url:
  "snd r = w\<lparr>effects := effects w @ Print (before @ url) # rest\<rparr> \<Longrightarrow>
   \<exists>before new. effects (snd r) = effects w @ new \<and> Print (before @ url) \<in> set new"
  by (intro exI [of _ before] exI [of _ "Print (before @ url) # rest"]) simp

lemma lower_App: "lower ''App'' = ''app''"
  by code_simp

lemma lower_none: "lower ''none'' = ''none''"
  by code_simp

lemma app_world_mode:
  "lower (environ_get (environ (app_world\<lparr>popen_error := f\<rparr>)) ''FASTHTML_BROWSER'' ''default'') = ''app''"
  "lower (environ_get (environ app_world) ''FASTHTML_BROWSER'' ''default'') = ''app''"
  by (simp_all add: app_world_def environ_get_def lower_App)

lemma app_world_facts:
  "sys_platform (app_world\<lparr>popen_error := f\<rparr>) = ''linux''"
  "sys_platform app_world = ''linux''"
  "effects (app_world\<lparr>popen_error := f\<rparr>) = []"
  "effects app_world = []"
  "popen_error app_world = (\<lambda>cmd. Some FileNotFoundError)"
  by (simp_all add: app_world_def demo_world_def)

lemma try_browsers_error_split:
  "fst (try_browsers cs w) = Inl e \<Longrightarrow>
   \<exists>pre c post. cs = pre @ c # post
      \<and> (\<forall>x \<in> set pre. popen_error w x = Some FileNotFoundError)
      \<and> popen_error w c = Some e \<and> e \<noteq> FileNotFoundError"
proof (induction cs arbitrary: w)
  case Nil
  then show ?case by simp
next
  case (Cons c cs)
  let ?w1 = "w\<lparr>effects := effects w @ [Popen c (popen_error w c)]\<rparr>"
  show ?case
  proof (cases "popen_error w c")
    case None
    with Cons.prems show ?thesis by (simp add: Let_def)
  next
    case (Some x)
    show ?thesis
    proof (cases "x = FileNotFoundError")
      case True
      with Some Cons.prems have "fst (try_browsers cs ?w1) = Inl e"
        by (simp add: Let_def)
      from Cons.IH [OF this] obtain pre d post where
        s: "cs = pre @ d # post" "\<forall>x \<in> set pre. popen_error w x = Some FileNotFoundError"
           "popen_error w d = Some e" "e \<noteq> FileNotFoundError"
        by auto
      from s True Some have "c # cs = (c # pre) @ d # post
        \<and> (\<forall>x \<in> set (c # pre). popen_error w x = Some FileNotFoundError)
        \<and> popen_error w d = Some e \<and> e \<noteq> FileNotFoundError"
        by simp
      then show ?thesis by blast
    next
      case False
      with Some Cons.prems have "c # cs = [] @ c # cs
        \<and> (\<forall>x \<in> set []. popen_error w x = Some FileNotFoundError)
        \<and> popen_error w c = Some e \<and> e \<noteq> FileNotFoundError"
        by (simp add: Let_def)
      then show ?thesis by blast
    qed
  qed
qed

lemma try_browsers_world:
  "snd (try_browsers cs w) = w\<lparr>effects := effects (snd (try_browsers cs w))\<rparr>"
proof (induction cs arbitrary: w)
  case Nil
  show ?case by simp
next
  case (Cons c cs)
  let ?w1 = "w\<lparr>effects := effects w @ [Popen c (popen_error w c)]\<rparr>"
  from Cons [of ?w1]
  have "snd (try_browsers cs ?w1) = w\<lparr>effects := effects (snd (try_browsers cs ?w1))\<rparr>"
    by simp
  then show ?case
    by (cases "popen_error w c") (auto simp: Let_def)
qed

lemma open_browser_world:
  "snd (open_browser url w) = w\<lparr>effects := effects (snd (open_browser url w))\<rparr>"
proof -
  let ?m = "lower (environ_get (environ w) ''FASTHTML_BROWSER'' ''default'')"
  consider (none) "?m = ''none''" | (app_linux) "?m = ''app''" "sys_platform w = ''linux''"
    | (app_other) "?m = ''app''" "sys_platform w \<noteq> ''linux''"
    | (default) "?m \<noteq> ''none''" "?m \<noteq> ''app''"
    by blast
  then show ?thesis
  proof cases
    case none
    then show ?thesis by (simp add: open_browser_none_mode)
  next
    case app_other
    then show ?thesis by (simp add: open_browser_app_other)
  next
    case default
    then show ?thesis by (simp add: open_browser_default_mode)
  next
    case app_linux
    let ?w1 = "w\<lparr>effects := effects w @ [Print (''Opening in app mode at '' @ url)]\<rparr>"
    obtain r w2 where t: "try_browsers (browsers url) ?w1 = (r, w2)"
      by (cases "try_browsers (browsers url) ?w1")
    from try_browsers_world [of "browsers url" ?w1] t have "w2 = w\<lparr>effects := effects w2\<rparr>"
      by simp
    then obtain x where "w2 = w\<lparr>effects := x\<rparr>"
      by blast
    then show ?thesis
      unfolding open_browser_app_linux [OF app_linux] t
      by (simp split: sum.splits bool.splits)
  qed
qed

lemma open_browser_effects: "\<exists>new. effects (snd (open_browser url w)) = effects w @ new"
proof -
  let ?m = "lower (environ_get (environ w) ''FASTHTML_BROWSER'' ''default'')"
  consider (none) "?m = ''none''" | (app_linux) "?m = ''app''" "sys_platform w = ''linux''"
    | (app_other) "?m = ''app''" "sys_platform w \<noteq> ''linux''"
    | (default) "?m \<noteq> ''none''" "?m \<noteq> ''app''"
    by blast
  then show ?thesis
  proof cases
    case none
    then show ?thesis by (simp add: open_browser_none_mode)
  next
    case app_other
    then show ?thesis by (simp add: open_browser_app_other)
  next
    case default
    then show ?thesis by (simp add: open_browser_default_mode)
  next
    case app_linux
    let ?w1 = "w\<lparr>effects := effects w @ [Print (''Opening in app mode at '' @ url)]\<rparr>"
    obtain r w2 where t: "try_browsers (browsers url) ?w1 = (r, w2)"
      by (cases "try_browsers (browsers url) ?w1")
    from try_browsers_effects [of "browsers url" ?w1] t
    obtain new where "effects w2 = effects w @ Print (''Opening in app mode at '' @ url) # new"
      by auto
    then show ?thesis
      unfolding open_browser_app_linux [OF app_linux] t
      by (simp split: sum.splits bool.splits)
  qed
qed

lemma get_effects: "get (w\<lparr>effects := x\<rparr>) s = get w s"
  by (simp add: get_def split: sum.splits)

lemma system_info_effects: "system_info (w\<lparr>effects := x\<rparr>) s = system_info w s"
  by (simp add: system_info_def)

lemma handle_effects: "handle (w\<lparr>effects := x\<rparr>) r s = handle w r s"
  by (cases r) (simp_all add: handle_def get_effects system_info_effects)

lemma main_eq:
  "main s w =
     timer_thread (open_browser (''http://'' @ HOST s @ '':'' @ str_int (PORT s)))
       (w\<lparr>effects := effects w @
            [Print (''Starting FastHTML server on '' @ ''http://'' @ HOST s @ '':'' @ str_int (PORT s)),
             UvicornRun (HOST s) (PORT s)]\<rparr>)"
  by (simp add: main_def print_def uvicorn_run_def Let_def)

lemma timer_thread_effects:
  "\<exists>new. effects (snd (target w)) = effects w @ new \<Longrightarrow>
   \<exists>after. effects (timer_thread target w) = effects w @ after"
  by (cases "target w") (auto simp: timer_thread_def split: sum.splits)

lemma main_effects:
  "\<exists>after. effects (main s w) =
     effects w @
       Print (''Starting FastHTML server on '' @ ''http://'' @ HOST s @ '':'' @ str_int (PORT s)) #
       UvicornRun (HOST s) (PORT s) # after"
proof -
  let ?url = "''http://'' @ HOST s @ '':'' @ str_int (PORT s)"
  let ?w2 = "w\<lparr>effects := effects w @
            [Print (''Starting FastHTML server on '' @ ?url), UvicornRun (HOST s) (PORT s)]\<rparr>"
  from timer_thread_effects [where target = "open_browser ?url" and w = ?w2, OF open_browser_effects]
  obtain after where "effects (timer_thread (open_browser ?url) ?w2) = effects ?w2 @ after"
    by blast
  then show ?thesis
    unfolding main_eq by simp
qed

lemma timer_thread_world:
  "snd (target w) = w\<lparr>effects := effects (snd (target w))\<rparr> \<Longrightarrow>
   timer_thread target w = w\<lparr>effects := effects (timer_thread target w)\<rparr>"
proof -
  assume a: "snd (target w) = w\<lparr>effects := effects (snd (target w))\<rparr>"
  obtain r w1 where t: "target w = (r, w1)"
    by (cases "target w")
  with a have "w1 = w\<lparr>effects := effects w1\<rparr>"
    by simp
  then obtain x where "w1 = w\<lparr>effects := x\<rparr>"
    by blast
  with t show ?thesis
    by (cases r) (simp_all add: timer_thread_def)
qed

lemma main_world: "main s w = w\<lparr>effects := effects (main s w)\<rparr>"
proof -
  let ?url = "''http://'' @ HOST s @ '':'' @ str_int (PORT s)"
  let ?w2 = "w\<lparr>effects := effects w @
            [Print (''Starting FastHTML server on '' @ ?url), UvicornRun (HOST s) (PORT s)]\<rparr>"
  from timer_thread_world [where target = "open_browser ?url" and w = ?w2, OF open_browser_world]
  have "timer_thread (open_browser ?url) ?w2 =
          ?w2\<lparr>effects := effects (timer_thread (open_browser ?url) ?w2)\<rparr>" .
  then obtain x where "timer_thread (open_browser ?url) ?w2 = w\<lparr>effects := x\<rparr>"
    by simp
  then show ?thesis
    unfolding main_eq by simp
qed

lemma open_browser_outcomes:
  "(list_all (\<lambda>c. popen_error w c = None \<or> popen_error w c = Some FileNotFoundError) (browsers url) \<longrightarrow>
      fst (open_browser url w) = Inr ())
   \<and> (fst (open_browser url w) = Inl e \<longrightarrow>
        e \<noteq> FileNotFoundError
        \<and> (\<exists>c \<in> set (browsers url). popen_error w c = Some e)
        \<and> lower (environ_get (environ w) ''FASTHTML_BROWSER'' ''default'') = ''app''
        \<and> sys_platform w = ''linux'')
   \<and> (\<exists>before new. effects (snd (open_browser url w)) = effects w @ new
                     \<and> Print (before @ url) \<in> set new)"
proof -
  let ?m = "lower (environ_get (environ w) ''FASTHTML_BROWSER'' ''default'')"
  let ?ok = "list_all (\<lambda>c. popen_error w c = None \<or> popen_error w c = Some FileNotFoundError) (browsers url)"
  consider (none) "?m = ''none''" | (app_linux) "?m = ''app''" "sys_platform w = ''linux''"
    | (app_other) "?m = ''app''" "sys_platform w \<noteq> ''linux''"
    | (default) "?m \<noteq> ''none''" "?m \<noteq> ''app''"
    by blast
  then show ?thesis
  proof cases
    case none
    have "\<exists>before new. effects (snd (open_browser url w)) = effects w @ new
                     \<and> Print (before @ url) \<in> set new"
      by (rule printed_url [where before = "''Server running at ''"
            and rest = "[Print ''Browser auto-open disabled. Please open manually.'']"])
         (simp add: open_browser_none_mode [OF none])
    then show ?thesis
      by (simp add: open_browser_none_mode [OF none])
  next
    case app_other
    have "\<exists>before new. effects (snd (open_browser url w)) = effects w @ new
                     \<and> Print (before @ url) \<in> set new"
      by (rule printed_url [where before = "''Opening in app mode at ''"
            and rest = "[Print (''Opening in browser at '' @ url), WebbrowserOpen url]"])
         (simp add: open_browser_app_other [OF app_other])
    then show ?thesis
      by (simp add: open_browser_app_other [OF app_other])
  next
    case default
    have "\<exists>before new. effects (snd (open_browser url w)) = effects w @ new
                     \<and> Print (before @ url) \<in> set new"
      by (rule printed_url [where before = "''Opening in browser at ''"
            and rest = "[WebbrowserOpen url]"])
         (simp add: open_browser_default_mode [OF default])
    then show ?thesis
      using default by (simp add: open_browser_default_mode [OF default])
  next
    case app_linux
    let ?w1 = "w\<lparr>effects := effects w @ [Print (''Opening in app mode at '' @ url)]\<rparr>"
    obtain r w2 where t: "try_browsers (browsers url) ?w1 = (r, w2)"
      by (cases "try_browsers (browsers url) ?w1")
    from try_browsers_effects [of "browsers url" ?w1] t
    obtain new where n: "effects w2 = effects w @ Print (''Opening in app mode at '' @ url) # new"
      by auto
    have fst_eq: "fst (open_browser url w) = (case r of Inl x \<Rightarrow> Inl x | Inr b \<Rightarrow> Inr ())"
      unfolding open_browser_app_linux [OF app_linux] t
      by (simp split: sum.splits bool.splits)
    have 1: "?ok \<longrightarrow> fst (open_browser url w) = Inr ()"
    proof
      assume ?ok
      then have "list_all (\<lambda>c. popen_error ?w1 c = None \<or> popen_error ?w1 c = Some FileNotFoundError) (browsers url)"
        by simp
      from try_browsers_no_error [OF this] t obtain b where "r = Inr b"
        by auto
      with fst_eq show "fst (open_browser url w) = Inr ()"
        by simp
    qed
    have 2: "fst (open_browser url w) = Inl e \<longrightarrow>
        e \<noteq> FileNotFoundError
        \<and> (\<exists>c \<in> set (browsers url). popen_error w c = Some e)
        \<and> ?m = ''app'' \<and> sys_platform w = ''linux''"
    proof
      assume "fst (open_browser url w) = Inl e"
      with fst_eq have "r = Inl e"
        by (cases r) simp_all
      with t have "fst (try_browsers (browsers url) ?w1) = Inl e"
        by simp
      from try_browsers_error [OF this] app_linux
      show "e \<noteq> FileNotFoundError
        \<and> (\<exists>c \<in> set (browsers url). popen_error w c = Some e)
        \<and> ?m = ''app'' \<and> sys_platform w = ''linux''"
        by simp
    qed
    have "\<exists>new'. effects (snd (open_browser url w)) =
             effects w @ Print (''Opening in app mode at '' @ url) # new'"
      unfolding open_browser_app_linux [OF app_linux] t using n
      by (simp split: sum.splits bool.splits)
    then obtain new' where
      "effects (snd (open_browser url w)) = effects w @ Print (''Opening in app mode at '' @ url) # new'"
      by blast
    moreover have "Print (''Opening in app mode at '' @ url) \<in>
        set (Print (''Opening in app mode at '' @ url) # new')"
      by simp
    ultimately have 3: "\<exists>before new. effects (snd (open_browser url w)) = effects w @ new
                     \<and> Print (before @ url) \<in> set new"
      by blast
    from 1 2 3 show ?thesis
      by blast
  qed
qed

lemma open_browser_raises_iff:
  "fst (open_browser url w) = Inl e \<longleftrightarrow>
     lower (environ_get (environ w) ''FASTHTML_BROWSER'' ''default'') = ''app''
     \<and> sys_platform w = ''linux''
     \<and> (\<exists>pre c post. browsers url = pre @ c # post
           \<and> (\<forall>x \<in> set pre. popen_error w x = Some FileNotFoundError)
           \<and> popen_error w c = Some e \<and> e \<noteq> FileNotFoundError)"
proof
  assume a: "fst (open_browser url w) = Inl e"
  from open_browser_outcomes [of w url e] a
  have m: "lower (environ_get (environ w) ''FASTHTML_BROWSER'' ''default'') = ''app''"
    and l: "sys_platform w = ''linux''"
    by blast+
  let ?w1 = "w\<lparr>effects := effects w @ [Print (''Opening in app mode at '' @ url)]\<rparr>"
  obtain r w2 where t: "try_browsers (browsers url) ?w1 = (r, w2)"
    by (cases "try_browsers (browsers url) ?w1")
  from a have "r = Inl e"
    unfolding open_browser_app_linux [OF m l] t
    by (cases r) (simp_all split: bool.splits)
  with t have "fst (try_browsers (browsers url) ?w1) = Inl e"
    by simp
  from try_browsers_error_split [OF this]
  have "\<exists>pre c post. browsers url = pre @ c # post
           \<and> (\<forall>x \<in> set pre. popen_error w x = Some FileNotFoundError)
           \<and> popen_error w c = Some e \<and> e \<noteq> FileNotFoundError"
    by simp
  with m l show "lower (environ_get (environ w) ''FASTHTML_BROWSER'' ''default'') = ''app''
     \<and> sys_platform w = ''linux''
     \<and> (\<exists>pre c post. browsers url = pre @ c # post
           \<and> (\<forall>x \<in> set pre. popen_error w x = Some FileNotFoundError)
           \<and> popen_error w c = Some e \<and> e \<noteq> FileNotFoundError)"
    by blast
next
  assume a: "lower (environ_get (environ w) ''FASTHTML_BROWSER'' ''default'') = ''app''
     \<and> sys_platform w = ''linux''
     \<and> (\<exists>pre c post. browsers url = pre @ c # post
           \<and> (\<forall>x \<in> set pre. popen_error w x = Some FileNotFoundError)
           \<and> popen_error w c = Some e \<and> e \<noteq> FileNotFoundError)"
  then obtain pre c post where m: "lower (environ_get (environ w) ''FASTHTML_BROWSER'' ''default'') = ''app''"
    and l: "sys_platform w = ''linux''"
    and b: "browsers url = pre @ c # post"
    and p: "\<forall>x \<in> set pre. popen_error w x = Some FileNotFoundError"
    and c: "popen_error w c = Some e" and e: "e \<noteq> FileNotFoundError"
    by blast
  let ?w1 = "w\<lparr>effects := effects w @ [Print (''Opening in app mode at '' @ url)]\<rparr>"
  from p c e have "try_browsers (pre @ c # post) ?w1 =
     (Inl e, ?w1\<lparr>effects := effects ?w1 @ map (\<lambda>x. Popen x (Some FileNotFoundError)) pre @ [Popen c (Some e)]\<rparr>)"
    by (intro try_browsers_first_error) simp_all
  with b show "fst (open_browser url w) = Inl e"
    by (simp add: open_browser_app_linux [OF m l])
qed

section \<open>The claims\<close>

subsection \<open>C1: increment\<close>

text \<open>
  Claim C1. A call of \<open>increment\<close> changes the module state in the counter only, which
  grows by exactly one, and returns the \<open>Span\<close> that shows the new value; \<open>N\<close> calls
  from the initial state leave the counter at \<open>N\<close>.
\<close>

theorem increment_counts:
  "snd (increment s) = s\<lparr>counter := counter s + 1\<rparr>
   \<and> fst (increment s) =
       FT ''Span'' [Str (''Count: '' @ str_int (counter s + 1))] [(''id'', SAttr ''counter'')]
   \<and> counter (increments N (initial_app port host work_dir)) = int N"
  by (simp add: increment_state increment_page increments_counter) (simp add: initial_app_def)

text \<open>Three calls from the initial state; the third returns \<open>Count: 3\<close>.\<close>

theorem increment_counts_witness:
  "counter (increments 3 (initial_app 8000 ''127.0.0.1'' ''/srv'')) = 3
   \<and> fst (increment (increments 2 (initial_app 8000 ''127.0.0.1'' ''/srv''))) =
       FT ''Span'' [Str ''Count: 3''] [(''id'', SAttr ''counter'')]"
proof -
  let ?s = "increments 2 (initial_app 8000 ''127.0.0.1'' ''/srv'')"
  have c: "counter ?s = 2"
    by code_simp
  have t: "str_int 3 = ''3''"
    by code_simp
  from increment_counts [of ?s 3 8000 "''127.0.0.1''" "''/srv''"] c t show ?thesis
    by simp
qed

subsection \<open>C2: add_todo\<close>

text \<open>
  Claim C2. One \<open>add_todo\<close> for each string of a list, from the initial state, leaves
  \<open>todos\<close> equal to that list: as many entries as additions, in the order of the
  additions, each string as it was passed, the empty string and repeated strings included.
  A call changes nothing but \<open>todos\<close> and returns the \<open>Ul\<close> of the whole updated list.
\<close>

theorem add_todo_appends:
  "todos (add_todos tasks (initial_app port host work_dir)) = tasks
   \<and> length (todos (add_todos tasks (initial_app port host work_dir))) = length tasks
   \<and> snd (add_todo task s) = s\<lparr>todos := todos s @ [task]\<rparr>
   \<and> fst (add_todo task s) =
       FT ''Ul'' (map (\<lambda>todo. FT ''Li'' [Str todo] []) (todos s @ [task])) [(''id'', SAttr ''todo-list'')]"
  by (simp add: add_todos_todos add_todo_state add_todo_page) (simp add: initial_app_def)

text \<open>The empty string and a string with blanks around it are stored as they are.\<close>

theorem add_todo_appends_witness:
  "todos (add_todos [''buy milk'', '''', '' buy milk ''] (initial_app 8000 ''127.0.0.1'' ''/srv'')) =
     [''buy milk'', '''', '' buy milk '']
   \<and> fst (add_todo '''' (add_todos [''buy milk''] (initial_app 8000 ''127.0.0.1'' ''/srv''))) =
       FT ''Ul'' [FT ''Li'' [Str ''buy milk''] [], FT ''Li'' [Str ''''] []] [(''id'', SAttr ''todo-list'')]"
proof -
  let ?s = "add_todos [''buy milk''] (initial_app 8000 ''127.0.0.1'' ''/srv'')"
  note th = add_todo_appends [of "[''buy milk'', '''', '' buy milk '']" 8000 "''127.0.0.1''" "''/srv''" "''''" ?s]
  have t: "todos ?s = [''buy milk'']"
    by (simp add: add_todo_def initial_app_def)
  have 1: "todos (add_todos [''buy milk'', '''', '' buy milk ''] (initial_app 8000 ''127.0.0.1'' ''/srv'')) =
     [''buy milk'', '''', '' buy milk '']"
    by (rule th [THEN conjunct1])
  have 2: "fst (add_todo '''' ?s) =
       FT ''Ul'' (map (\<lambda>todo. FT ''Li'' [Str todo] []) (todos ?s @ [''''])) [(''id'', SAttr ''todo-list'')]"
    by (rule th [THEN conjunct2, THEN conjunct2, THEN conjunct2])
  have 3: "fst (add_todo '''' ?s) =
       FT ''Ul'' [FT ''Li'' [Str ''buy milk''] [], FT ''Li'' [Str ''''] []] [(''id'', SAttr ''todo-list'')]"
    unfolding 2 t by simp
  show ?thesis
    by (rule conjI [OF 1 3])
qed

subsection \<open>C3: the port\<close>

text \<open>
  Claim C3. When \<open>FASTHTML_PORT\<close> holds a string other than \<open>0\<close> that \<open>int\<close> accepts,
  the port is the integer it denotes; in particular the decimal numeral of any integer but
  zero gives that integer. When the variable is absent or is \<open>0\<close>, a port that is returned
  is the one the operating system bound the probe socket to, read back from the socket; it
  was bound by no socket before; the probe socket is closed, so that the bound ports are
  afterwards what they were. A port is returned whenever the system has a free one to offer.
\<close>

theorem resolve_port_spec:
  "(environ w ''FASTHTML_PORT'' = Some v \<and> v \<noteq> ''0'' \<and> py_int v = Inr n \<longrightarrow>
      resolve_port w = (Inr n, w))
   \<and> (environ w ''FASTHTML_PORT'' = Some (str_int n) \<and> n \<noteq> 0 \<longrightarrow> resolve_port w = (Inr n, w))
   \<and> (environ w ''FASTHTML_PORT'' = None \<or> environ w ''FASTHTML_PORT'' = Some ''0'' \<longrightarrow>
        (\<forall>m w'. resolve_port w = (Inr m, w') \<longrightarrow>
           (\<exists>p. m = int p
              \<and> sock_bind0 None w = (Inr (Some p), w\<lparr>listeners := p # listeners w\<rparr>)
              \<and> sock_port (Some p) = p
              \<and> w' = sock_close (Some p) (w\<lparr>listeners := p # listeners w\<rparr>)
              \<and> listeners w' = listeners w
              \<and> p \<notin> set (listeners w)))
        \<and> ((\<exists>p \<in> set (port_offers w). p \<notin> set (listeners w)) \<longrightarrow>
             (\<exists>p. resolve_port w = (Inr (int p), w))))"
proof (intro conjI impI)
  assume "environ w ''FASTHTML_PORT'' = Some v \<and> v \<noteq> ''0'' \<and> py_int v = Inr n"
  then show "resolve_port w = (Inr n, w)"
    by (simp add: resolve_port_def environ_get_def)
next
  assume a: "environ w ''FASTHTML_PORT'' = Some (str_int n) \<and> n \<noteq> 0"
  then have "str_int n \<noteq> ''0''"
    using str_int_zero by blast
  with a show "resolve_port w = (Inr n, w)"
    by (simp add: resolve_port_def environ_get_def py_int_str_int)
next
  assume a: "environ w ''FASTHTML_PORT'' = None \<or> environ w ''FASTHTML_PORT'' = Some ''0''"
  then have e: "environ_get (environ w) ''FASTHTML_PORT'' ''0'' = ''0''"
    by (auto simp: environ_get_def)
  show "\<forall>m w'. resolve_port w = (Inr m, w') \<longrightarrow>
           (\<exists>p. m = int p
              \<and> sock_bind0 None w = (Inr (Some p), w\<lparr>listeners := p # listeners w\<rparr>)
              \<and> sock_port (Some p) = p
              \<and> w' = sock_close (Some p) (w\<lparr>listeners := p # listeners w\<rparr>)
              \<and> listeners w' = listeners w
              \<and> p \<notin> set (listeners w))"
  proof (intro allI impI)
    fix m w'
    assume r: "resolve_port w = (Inr m, w')"
    with e obtain p where f: "find (\<lambda>p. p \<notin> set (listeners w)) (port_offers w) = Some p"
      and m: "m = int p" and w': "w' = w"
      by (auto simp: resolve_port_def find_free_port_eq split: option.splits)
    from f have "p \<notin> set (listeners w)"
      by (auto simp: find_Some_iff)
    with f m w' show "\<exists>p. m = int p
              \<and> sock_bind0 None w = (Inr (Some p), w\<lparr>listeners := p # listeners w\<rparr>)
              \<and> sock_port (Some p) = p
              \<and> w' = sock_close (Some p) (w\<lparr>listeners := p # listeners w\<rparr>)
              \<and> listeners w' = listeners w
              \<and> p \<notin> set (listeners w)"
      by (simp add: sock_bind0_def sock_port_def sock_close_def)
  qed
  assume "\<exists>p \<in> set (port_offers w). p \<notin> set (listeners w)"
  then obtain p where "find (\<lambda>p. p \<notin> set (listeners w)) (port_offers w) = Some p"
    by (cases "find (\<lambda>p. p \<notin> set (listeners w)) (port_offers w)") (auto simp: find_None_iff)
  with e show "\<exists>p. resolve_port w = (Inr (int p), w)"
    by (simp add: resolve_port_def find_free_port_eq)
qed

text \<open>\<open>FASTHTML_PORT=5000\<close> gives 5000; with no variable, 40000 is in use and 40001 is taken.\<close>

theorem resolve_port_spec_witness:
  "resolve_port (demo_world\<lparr>environ := [''FASTHTML_PORT'' \<mapsto> ''5000'']\<rparr>) =
     (Inr 5000, demo_world\<lparr>environ := [''FASTHTML_PORT'' \<mapsto> ''5000'']\<rparr>)
   \<and> resolve_port demo_world = (Inr 40001, demo_world)
   \<and> 40001 \<notin> set (listeners demo_world)"
proof -
  let ?w = "demo_world\<lparr>environ := [''FASTHTML_PORT'' \<mapsto> ''5000'']\<rparr>"
  have i: "py_int ''5000'' = Inr 5000"
    by code_simp
  have e: "environ ?w ''FASTHTML_PORT'' = Some ''5000'' \<and> ''5000'' \<noteq> ''0'' \<and> py_int ''5000'' = Inr 5000"
    using i by simp
  from resolve_port_spec [of ?w "''5000''" 5000] e
  have 1: "resolve_port ?w = (Inr 5000, ?w)"
    by blast
  have a: "environ demo_world ''FASTHTML_PORT'' = None \<or> environ demo_world ''FASTHTML_PORT'' = Some ''0''"
    by (simp add: demo_world_def)
  have o: "\<exists>p \<in> set (port_offers demo_world). p \<notin> set (listeners demo_world)"
    by (simp add: demo_world_def)
  from resolve_port_spec [of demo_world "''0''" 0] a o
  obtain p where r: "resolve_port demo_world = (Inr (int p), demo_world)"
    by blast
  with resolve_port_spec [of demo_world "''0''" 0] a
  have f: "sock_bind0 None demo_world = (Inr (Some p), demo_world\<lparr>listeners := p # listeners demo_world\<rparr>)"
    and n: "p \<notin> set (listeners demo_world)"
    by (metis of_nat_eq_iff)+
  from f have "p = 40001"
    by (simp add: sock_bind0_def demo_world_def)
  with r n 1 show ?thesis
    by simp
qed

subsection \<open>C4: the working directory\<close>

text \<open>
  Claim C4, as amended: the marker counts when \<open>APPIMAGE\<close> is set to a string that is
  not empty. Then, after a start-up that succeeds, the working directory is \<open>WORK_DIR\<close>, a
  directory in the temporary directory with the prefix \<open>fasthtml-app-\<close> that did not exist
  before and exists now, and differs from the original working directory (an existing
  directory). When \<open>APPIMAGE\<close> is absent or empty, the working directory and the existing
  directories are unchanged, and \<open>WORK_DIR\<close> is the working directory.
\<close>

theorem startup_work_dir:
  "((\<exists>v. environ w ''APPIMAGE'' = Some v \<and> v \<noteq> '''') \<and> startup w = (Inr s, w') \<longrightarrow>
      cwd w' = WORK_DIR s
      \<and> WORK_DIR s \<notin> set (dirs w)
      \<and> dirs w' = WORK_DIR s # dirs w
      \<and> (\<exists>name \<in> set (take 10000 (temp_names w)).
            WORK_DIR s = path_join (tempdir w) (''fasthtml-app-'' @ name))
      \<and> (cwd w \<in> set (dirs w) \<longrightarrow> cwd w' \<noteq> cwd w))
   \<and> ((environ w ''APPIMAGE'' = None \<or> environ w ''APPIMAGE'' = Some '''') \<and> startup w = (Inr s, w') \<longrightarrow>
        cwd w' = cwd w \<and> WORK_DIR s = cwd w \<and> dirs w' = dirs w)"
proof (intro conjI impI)
  assume a: "(\<exists>v. environ w ''APPIMAGE'' = Some v \<and> v \<noteq> '''') \<and> startup w = (Inr s, w')"
  then have t: "environ_truthy (environ w) ''APPIMAGE''"
    by (auto simp: environ_truthy_def)
  let ?cands = "map (\<lambda>name. path_join (tempdir w) (''fasthtml-app-'' @ name)) (take 10000 (temp_names w))"
  from a t obtain p where f: "find (\<lambda>p. p \<notin> set (dirs w)) ?cands = Some p"
    and s: "WORK_DIR s = p" and w': "w' = w\<lparr>dirs := p # dirs w, cwd := p\<rparr>"
    by (auto simp: startup_eq setup_work_dir_packaged initial_app_def split: sum.splits option.splits)
  from f have fresh: "p \<notin> set (dirs w)" and cand: "p \<in> set ?cands"
    by (auto dest: find_Some_in)
  from s w' show "cwd w' = WORK_DIR s" by simp
  from s fresh show "WORK_DIR s \<notin> set (dirs w)" by simp
  from s w' show "dirs w' = WORK_DIR s # dirs w" by simp
  from s cand show "\<exists>name \<in> set (take 10000 (temp_names w)).
            WORK_DIR s = path_join (tempdir w) (''fasthtml-app-'' @ name)"
    by auto
  assume "cwd w \<in> set (dirs w)"
  with fresh w' show "cwd w' \<noteq> cwd w" by auto
next
  assume a: "(environ w ''APPIMAGE'' = None \<or> environ w ''APPIMAGE'' = Some '''') \<and> startup w = (Inr s, w')"
  then have t: "\<not> environ_truthy (environ w) ''APPIMAGE''"
    by (auto simp: environ_truthy_def)
  with a have "w' = w \<and> WORK_DIR s = cwd w"
    by (auto simp: startup_eq setup_work_dir_plain initial_app_def split: sum.splits)
  then show "cwd w' = cwd w" "WORK_DIR s = cwd w" "dirs w' = dirs w"
    by simp_all
qed

text \<open>
  With \<open>APPIMAGE\<close> set, the name \<open>aaa\<close> is taken and \<open>/tmp/fasthtml-app-bbb\<close> becomes
  the working directory; without it the working directory stays \<open>/home/u\<close>.
\<close>

theorem startup_work_dir_witness:
  "cwd (snd (startup (demo_world\<lparr>environ := [''APPIMAGE'' \<mapsto> ''/opt/demo.AppImage'']\<rparr>))) = ''/tmp/fasthtml-app-bbb''
   \<and> cwd (snd (startup demo_world)) = ''/home/u''"
proof -
  let ?w = "demo_world\<lparr>environ := [''APPIMAGE'' \<mapsto> ''/opt/demo.AppImage'']\<rparr>"
  have p: "fst (resolve_port ?w) = Inr 40001" "fst (resolve_port demo_world) = Inr 40001"
    by (simp_all add: resolve_port_def environ_get_def find_free_port_eq demo_world_def)
  have t: "environ_truthy (environ ?w) ''APPIMAGE''" "\<not> environ_truthy (environ demo_world) ''APPIMAGE''"
    by (simp_all add: environ_truthy_def demo_world_def)
  have n: "dirs ?w = [''/home/u'', ''/tmp'', ''/tmp/fasthtml-app-aaa'']" "temp_names ?w = [''aaa'', ''bbb'']"
     "tempdir ?w = ''/tmp''"
    by (simp_all add: demo_world_def)
  obtain s w' where a: "startup ?w = (Inr s, w')" and b: "WORK_DIR s = ''/tmp/fasthtml-app-bbb''"
    by (simp add: startup_eq p setup_work_dir_packaged [OF t(1)] n path_join_def initial_app_def)
  have e: "\<exists>v. environ ?w ''APPIMAGE'' = Some v \<and> v \<noteq> ''''"
    by simp
  from startup_work_dir [of ?w s w'] a e have "cwd w' = WORK_DIR s"
    by blast
  with a b have 1: "cwd (snd (startup ?w)) = ''/tmp/fasthtml-app-bbb''"
    by simp
  obtain s2 w2 where a2: "startup demo_world = (Inr s2, w2)"
    by (simp add: startup_eq p setup_work_dir_plain [OF t(2)])
  have e2: "environ demo_world ''APPIMAGE'' = None"
    by (simp add: demo_world_def)
  from startup_work_dir [of demo_world s2 w2] a2 e2 have "cwd w2 = cwd demo_world"
    by blast
  with a2 have 2: "cwd (snd (startup demo_world)) = ''/home/u''"
    by (simp add: demo_world_def)
  from 1 2 show ?thesis by simp
qed

text \<open>
  Claim C4 as stated fails when \<open>APPIMAGE\<close> is present with the empty string as its
  value: start-up succeeds, no directory is created and the working directory stays.
\<close>

theorem startup_work_dir_counterexample:
  "environ (demo_world\<lparr>environ := [''APPIMAGE'' \<mapsto> '''']\<rparr>) ''APPIMAGE'' = Some ''''
   \<and> cwd (snd (startup (demo_world\<lparr>environ := [''APPIMAGE'' \<mapsto> '''']\<rparr>))) = cwd demo_world
   \<and> dirs (snd (startup (demo_world\<lparr>environ := [''APPIMAGE'' \<mapsto> '''']\<rparr>))) = dirs demo_world
   \<and> (\<exists>s. fst (startup (demo_world\<lparr>environ := [''APPIMAGE'' \<mapsto> '''']\<rparr>)) = Inr s)"
proof -
  let ?w = "demo_world\<lparr>environ := [''APPIMAGE'' \<mapsto> '''']\<rparr>"
  have p: "fst (resolve_port ?w) = Inr 40001"
    by (simp add: resolve_port_def environ_get_def find_free_port_eq demo_world_def)
  have t: "\<not> environ_truthy (environ ?w) ''APPIMAGE''"
    by (simp add: environ_truthy_def)
  show ?thesis
    by (simp add: startup_eq p setup_work_dir_plain [OF t])
qed

subsection \<open>C5: system_info\<close>

text \<open>
  Claim C5, as amended: \<open>system_info\<close> shows the process id, the packaged-mode flag and
  the time stamp of the world it is called in; the working directory it shows is that
  world's current directory when \<open>APPIMAGE\<close> is unset or empty, and the value
  \<open>WORK_DIR\<close> stored at start-up when \<open>APPIMAGE\<close> is set. Nothing else of the module
  state is shown: without \<open>APPIMAGE\<close> the result is the same for any two module states,
  and with it for any two that agree on \<open>WORK_DIR\<close>.
\<close>

theorem system_info_sources:
  "system_info w s =
     FT ''Div''
       [FT ''H2'' [Str ''System Information''] [],
        FT ''Ul''
          [Li (''Process ID: '' @ str_nat (pid w)),
           Li (''Working Directory: '' @ (if environ_truthy (environ w) ''APPIMAGE'' then WORK_DIR s else cwd w)),
           Li (''AppImage: '' @ (if environ_truthy (environ w) ''APPIMAGE'' then ''Yes'' else ''No'')),
           Li (''Timestamp: '' @ strftime (now w))] [],
        refresh_button]
       [(''id'', SAttr ''system-info'')]
   \<and> (\<not> environ_truthy (environ w) ''APPIMAGE'' \<longrightarrow> system_info w s = system_info w s')
   \<and> (WORK_DIR s = WORK_DIR s' \<longrightarrow> system_info w s = system_info w s')"
  by (simp add: system_info_eq)

text \<open>Without \<open>APPIMAGE\<close>, two module states give the same fragment, read from the world.\<close>

theorem system_info_sources_witness:
  "system_info demo_world (initial_app 8000 ''127.0.0.1'' ''/srv'') =
     system_info demo_world (initial_app 9000 ''0.0.0.0'' ''/home/u'')
   \<and> system_info demo_world (initial_app 8000 ''127.0.0.1'' ''/srv'') =
       FT ''Div''
         [FT ''H2'' [Str ''System Information''] [],
          FT ''Ul''
            [Li ''Process ID: 4242'',
             Li ''Working Directory: /home/u'',
             Li ''AppImage: No'',
             Li ''Timestamp: 2024-03-09 07:05:00''] [],
          refresh_button]
         [(''id'', SAttr ''system-info'')]"
proof -
  let ?s = "initial_app 8000 ''127.0.0.1'' ''/srv''"
  let ?s' = "initial_app 9000 ''0.0.0.0'' ''/home/u''"
  note th = system_info_sources [of demo_world ?s ?s']
  have n: "\<not> environ_truthy (environ demo_world) ''APPIMAGE''"
    by (simp add: environ_truthy_def demo_world_def)
  have p: "str_nat (pid demo_world) = ''4242''"
    by (simp add: demo_world_def) code_simp
  have t: "strftime (now demo_world) = ''2024-03-09 07:05:00''"
    by (simp add: demo_world_def) code_simp
  have c: "cwd demo_world = ''/home/u''"
    by (simp add: demo_world_def)
  from th n have 1: "system_info demo_world ?s = system_info demo_world ?s'"
    by blast
  from th have "system_info demo_world ?s =
     FT ''Div''
       [FT ''H2'' [Str ''System Information''] [],
        FT ''Ul''
          [Li (''Process ID: '' @ str_nat (pid demo_world)),
           Li (''Working Directory: '' @ (if environ_truthy (environ demo_world) ''APPIMAGE'' then WORK_DIR ?s else cwd demo_world)),
           Li (''AppImage: '' @ (if environ_truthy (environ demo_world) ''APPIMAGE'' then ''Yes'' else ''No'')),
           Li (''Timestamp: '' @ strftime (now demo_world))] [],
        refresh_button]
       [(''id'', SAttr ''system-info'')]"
    by (rule conjunct1)
  then have 2: "system_info demo_world ?s =
       FT ''Div''
         [FT ''H2'' [Str ''System Information''] [],
          FT ''Ul''
            [Li ''Process ID: 4242'',
             Li ''Working Directory: /home/u'',
             Li ''AppImage: No'',
             Li ''Timestamp: 2024-03-09 07:05:00''] [],
          refresh_button]
         [(''id'', SAttr ''system-info'')]"
    unfolding p t c using n by simp
  from 1 2 show ?thesis
    by (rule conjI)
qed

text \<open>
  Claim C5 as stated fails: with \<open>APPIMAGE\<close> set, start-up stores
  \<open>/tmp/fasthtml-app-bbb\<close> in \<open>WORK_DIR\<close>, and a call in a world whose current
  directory is \<open>/home/u\<close> shows the stored value as the working directory.
\<close>

theorem system_info_sources_counterexample:
  "fst (startup packaged_world) = Inr (initial_app 40001 ''127.0.0.1'' ''/tmp/fasthtml-app-bbb'')
   \<and> cwd packaged_world = ''/home/u''
   \<and> system_info packaged_world (initial_app 40001 ''127.0.0.1'' ''/tmp/fasthtml-app-bbb'') =
       FT ''Div''
         [FT ''H2'' [Str ''System Information''] [],
          FT ''Ul''
            [Li ''Process ID: 4242'',
             Li ''Working Directory: /tmp/fasthtml-app-bbb'',
             Li ''AppImage: Yes'',
             Li ''Timestamp: 2024-03-09 07:05:00''] [],
          refresh_button]
         [(''id'', SAttr ''system-info'')]"
proof -
  have p: "str_nat 4242 = ''4242''"
    by code_simp
  have t: "strftime \<lparr>year = 2024, month = 3, day = 9, hour = 7, minute = 5, second = 0\<rparr> = ''2024-03-09 07:05:00''"
    by code_simp
  have r: "fst (resolve_port packaged_world) = Inr 40001"
    by (simp add: resolve_port_def environ_get_def find_free_port_eq packaged_world_def demo_world_def)
  have a: "environ_truthy (environ packaged_world) ''APPIMAGE''"
    by (simp add: environ_truthy_def packaged_world_def)
  have n: "dirs packaged_world = [''/home/u'', ''/tmp'', ''/tmp/fasthtml-app-aaa'']"
    "temp_names packaged_world = [''aaa'', ''bbb'']" "tempdir packaged_world = ''/tmp''"
    "environ packaged_world ''FASTHTML_HOST'' = None"
    by (simp_all add: packaged_world_def demo_world_def)
  have 1: "fst (startup packaged_world) = Inr (initial_app 40001 ''127.0.0.1'' ''/tmp/fasthtml-app-bbb'')"
    by (simp add: startup_eq r setup_work_dir_packaged [OF a] n path_join_def environ_get_def)
  have 2: "cwd packaged_world = ''/home/u''
   \<and> system_info packaged_world (initial_app 40001 ''127.0.0.1'' ''/tmp/fasthtml-app-bbb'') =
       FT ''Div''
         [FT ''H2'' [Str ''System Information''] [],
          FT ''Ul''
            [Li ''Process ID: 4242'',
             Li ''Working Directory: /tmp/fasthtml-app-bbb'',
             Li ''AppImage: Yes'',
             Li ''Timestamp: 2024-03-09 07:05:00''] [],
          refresh_button]
         [(''id'', SAttr ''system-info'')]"
    by (simp add: system_info_def packaged_world_def demo_world_def environ_truthy_def initial_app_def p t)
  from 1 2 show ?thesis
    by (rule conjI)
qed

subsection \<open>C6: failures of the browser launcher\<close>

text \<open>
  Claim C6, as amended: a spawn failure that is a \<open>FileNotFoundError\<close> never leaves
  \<open>open_browser\<close>: when each browser command either spawns or raises
  \<open>FileNotFoundError\<close>, nothing is raised. Any other exception of a spawn does leave it:
  \<open>open_browser\<close> raises \<open>e\<close> exactly when, in \<open>app\<close> mode on Linux, the first command
  whose spawn does not raise \<open>FileNotFoundError\<close> raises \<open>e\<close>. On every path a line
  ending with the URL is printed. The server is not affected by what the launcher does:
  \<open>open_browser\<close> changes nothing of the world but its effects, every request is answered
  after the launcher, and after \<open>main\<close> with its timer thread, as it is answered before,
  and \<open>main\<close> calls \<open>uvicorn.run\<close> with \<open>HOST\<close> and \<open>PORT\<close> whatever the launcher
  does.
\<close>

theorem open_browser_failures:
  "(list_all (\<lambda>c. popen_error w c = None \<or> popen_error w c = Some FileNotFoundError) (browsers url) \<longrightarrow>
      fst (open_browser url w) = Inr ())
   \<and> (fst (open_browser url w) = Inl e \<longleftrightarrow>
        lower (environ_get (environ w) ''FASTHTML_BROWSER'' ''default'') = ''app''
        \<and> sys_platform w = ''linux''
        \<and> (\<exists>pre c post. browsers url = pre @ c # post
              \<and> (\<forall>x \<in> set pre. popen_error w x = Some FileNotFoundError)
              \<and> popen_error w c = Some e \<and> e \<noteq> FileNotFoundError))
   \<and> (\<exists>before new. effects (snd (open_browser url w)) = effects w @ new
                     \<and> Print (before @ url) \<in> set new)
   \<and> snd (open_browser url w) = w\<lparr>effects := effects (snd (open_browser url w))\<rparr>
   \<and> handle (snd (open_browser url w)) r s = handle w r s
   \<and> handle (main s w) r s = handle w r s
   \<and> (\<exists>after. effects (main s w) =
         effects w @
           Print (''Starting FastHTML server on '' @ ''http://'' @ HOST s @ '':'' @ str_int (PORT s)) #
           UvicornRun (HOST s) (PORT s) # after)"
proof -
  have h1: "handle (snd (open_browser url w)) r s = handle w r s"
    by (subst open_browser_world) (rule handle_effects)
  have h2: "handle (main s w) r s = handle w r s"
    by (subst main_world) (rule handle_effects)
  from open_browser_outcomes [of w url e]
  have o1: "list_all (\<lambda>c. popen_error w c = None \<or> popen_error w c = Some FileNotFoundError) (browsers url) \<longrightarrow>
      fst (open_browser url w) = Inr ()"
    and o3: "\<exists>before new. effects (snd (open_browser url w)) = effects w @ new
                     \<and> Print (before @ url) \<in> set new"
    by blast+
  from o1 open_browser_raises_iff [of url w e] o3 open_browser_world [of url w] h1 h2 main_effects [of s w]
  show ?thesis
    by (intro conjI)
qed

text \<open>
  In \<open>app\<close> mode with no browser installed nothing is raised. When the spawn of
  \<open>firefox\<close> raises \<open>PermissionError\<close> after two commands that are not found, the
  exception leaves \<open>open_browser\<close>; the server is started all the same and answers a
  request as before.
\<close>

theorem open_browser_failures_witness:
  "fst (open_browser demo_url app_world) = Inr ()
   \<and> list_all (\<lambda>c. popen_error app_world c = None \<or> popen_error app_world c = Some FileNotFoundError)
        (browsers demo_url)
   \<and> fst (open_browser demo_url (app_world\<lparr>popen_error := firefox_denied\<rparr>)) = Inl PermissionError
   \<and> handle (main (initial_app 40001 ''127.0.0.1'' ''/home/u'') (app_world\<lparr>popen_error := firefox_denied\<rparr>))
         Post_increment (initial_app 40001 ''127.0.0.1'' ''/home/u'') =
       handle (app_world\<lparr>popen_error := firefox_denied\<rparr>)
         Post_increment (initial_app 40001 ''127.0.0.1'' ''/home/u'')
   \<and> UvicornRun ''127.0.0.1'' 40001 \<in>
       set (effects (main (initial_app 40001 ''127.0.0.1'' ''/home/u'')
                          (app_world\<lparr>popen_error := firefox_denied\<rparr>)))"
proof -
  let ?w = "app_world\<lparr>popen_error := firefox_denied\<rparr>"
  let ?s = "initial_app 40001 ''127.0.0.1'' ''/home/u''"
  let ?pre = "[[''google-chrome'', ''--app='' @ demo_url], [''chromium'', ''--app='' @ demo_url]]"
  let ?c = "[''firefox'', ''--new-window'', demo_url]"
  have ok: "list_all (\<lambda>c. popen_error app_world c = None \<or> popen_error app_world c = Some FileNotFoundError)
        (browsers demo_url)"
    by (simp add: app_world_facts browsers_def)
  with open_browser_failures [of app_world demo_url]
  have 1: "fst (open_browser demo_url app_world) = Inr ()"
    by blast
  have "browsers demo_url = ?pre @ ?c # []
      \<and> (\<forall>x \<in> set ?pre. popen_error ?w x = Some FileNotFoundError)
      \<and> popen_error ?w ?c = Some PermissionError \<and> PermissionError \<noteq> FileNotFoundError"
    by (simp add: browsers_def firefox_denied_def demo_url_def)
  then have "\<exists>pre c post. browsers demo_url = pre @ c # post
      \<and> (\<forall>x \<in> set pre. popen_error ?w x = Some FileNotFoundError)
      \<and> popen_error ?w c = Some PermissionError \<and> PermissionError \<noteq> FileNotFoundError"
    by blast
  with open_browser_failures [of ?w demo_url PermissionError] app_world_mode(1) [of firefox_denied]
    app_world_facts(1) [of firefox_denied]
  have 2: "fst (open_browser demo_url ?w) = Inl PermissionError"
    by blast
  from open_browser_failures [of ?w demo_url PermissionError Post_increment ?s]
  have 3: "handle (main ?s ?w) Post_increment ?s = handle ?w Post_increment ?s"
    by blast
  from open_browser_failures [of ?w demo_url PermissionError Post_increment ?s]
  obtain after where "effects (main ?s ?w) =
         effects ?w @
           Print (''Starting FastHTML server on '' @ ''http://'' @ HOST ?s @ '':'' @ str_int (PORT ?s)) #
           UvicornRun (HOST ?s) (PORT ?s) # after"
    by blast
  then have 4: "UvicornRun ''127.0.0.1'' 40001 \<in> set (effects (main ?s ?w))"
    by (simp add: initial_app_def)
  from 1 ok 2 3 4 show ?thesis
    by (intro conjI)
qed

text \<open>
  Claim C6 as stated fails: when spawning \<open>google-chrome\<close> raises \<open>PermissionError\<close>,
  the exception leaves \<open>open_browser\<close>.
\<close>

theorem open_browser_failures_counterexample:
  "fst (open_browser demo_url (app_world\<lparr>popen_error := chrome_denied\<rparr>)) = Inl PermissionError"
proof -
  let ?w = "app_world\<lparr>popen_error := chrome_denied\<rparr>"
  let ?w1 = "?w\<lparr>effects := effects ?w @ [Print (''Opening in app mode at '' @ demo_url)]\<rparr>"
  have "try_browsers ([] @ [''google-chrome'', ''--app='' @ demo_url] #
           [[''chromium'', ''--app='' @ demo_url], [''firefox'', ''--new-window'', demo_url]]) ?w1 =
     (Inl PermissionError, ?w1\<lparr>effects := effects ?w1 @ map (\<lambda>x. Popen x (Some FileNotFoundError)) [] @
         [Popen [''google-chrome'', ''--app='' @ demo_url] (Some PermissionError)]\<rparr>)"
    by (rule try_browsers_first_error) (simp_all add: chrome_denied_def)
  then show ?thesis
    by (simp add: open_browser_app_linux [OF app_world_mode(1) app_world_facts(1)] browsers_def)
qed

subsection \<open>C7: app mode\<close>

text \<open>
  Claim C7, as amended. In \<open>app\<close> mode the commands are \<open>google-chrome --app=URL\<close>,
  \<open>chromium --app=URL\<close> and \<open>firefox --new-window URL\<close>, tried in this order. On
  Linux, when the commands before one raise \<open>FileNotFoundError\<close> and that one spawns,
  nothing after it is tried and the default browser is not opened; when all raise
  \<open>FileNotFoundError\<close>, the default browser is opened after them; when the first command
  that does not raise \<open>FileNotFoundError\<close> raises another exception, that exception leaves
  \<open>open_browser\<close>, and neither a later command nor the default browser is tried. On
  another platform no command is tried and the default browser is opened.
\<close>

theorem open_browser_app_mode:
  assumes "lower (environ_get (environ w) ''FASTHTML_BROWSER'' ''default'') = ''app''"
  shows "browsers url =
           [[''google-chrome'', ''--app='' @ url], [''chromium'', ''--app='' @ url],
            [''firefox'', ''--new-window'', url]]
   \<and> (sys_platform w = ''linux'' \<and> browsers url = pre @ c # post
        \<and> (\<forall>x \<in> set pre. popen_error w x = Some FileNotFoundError) \<and> popen_error w c = None \<longrightarrow>
        open_browser url w =
          (Inr (), w\<lparr>effects := effects w @ Print (''Opening in app mode at '' @ url) #
                      map (\<lambda>x. Popen x (Some FileNotFoundError)) pre @ [Popen c None]\<rparr>))
   \<and> (sys_platform w = ''linux''
        \<and> (\<forall>x \<in> set (browsers url). popen_error w x = Some FileNotFoundError) \<longrightarrow>
        open_browser url w =
          (Inr (), w\<lparr>effects := effects w @ Print (''Opening in app mode at '' @ url) #
                      map (\<lambda>x. Popen x (Some FileNotFoundError)) (browsers url) @
                      [Print (''Opening in browser at '' @ url), WebbrowserOpen url]\<rparr>))
   \<and> (sys_platform w \<noteq> ''linux'' \<longrightarrow>
        open_browser url w =
          (Inr (), w\<lparr>effects := effects w @ [Print (''Opening in app mode at '' @ url),
                                              Print (''Opening in browser at '' @ url),
                                              WebbrowserOpen url]\<rparr>))
   \<and> (sys_platform w = ''linux'' \<and> browsers url = pre @ c # post
        \<and> (\<forall>x \<in> set pre. popen_error w x = Some FileNotFoundError)
        \<and> popen_error w c = Some e \<and> e \<noteq> FileNotFoundError \<longrightarrow>
        open_browser url w =
          (Inl e, w\<lparr>effects := effects w @ Print (''Opening in app mode at '' @ url) #
                     map (\<lambda>x. Popen x (Some FileNotFoundError)) pre @ [Popen c (Some e)]\<rparr>))"
proof (intro conjI impI)
  show "browsers url =
           [[''google-chrome'', ''--app='' @ url], [''chromium'', ''--app='' @ url],
            [''firefox'', ''--new-window'', url]]"
    by (simp add: browsers_def)
next
  let ?w1 = "w\<lparr>effects := effects w @ [Print (''Opening in app mode at '' @ url)]\<rparr>"
  assume a: "sys_platform w = ''linux'' \<and> browsers url = pre @ c # post
        \<and> (\<forall>x \<in> set pre. popen_error w x = Some FileNotFoundError) \<and> popen_error w c = None"
  then have "try_browsers (pre @ c # post) ?w1 =
     (Inr True, ?w1\<lparr>effects := effects ?w1 @ map (\<lambda>x. Popen x (Some FileNotFoundError)) pre @ [Popen c None]\<rparr>)"
    by (intro try_browsers_first_spawn) simp_all
  with a assms show "open_browser url w =
          (Inr (), w\<lparr>effects := effects w @ Print (''Opening in app mode at '' @ url) #
                      map (\<lambda>x. Popen x (Some FileNotFoundError)) pre @ [Popen c None]\<rparr>)"
    by (simp add: open_browser_app_linux)
next
  let ?w1 = "w\<lparr>effects := effects w @ [Print (''Opening in app mode at '' @ url)]\<rparr>"
  assume a: "sys_platform w = ''linux''
        \<and> (\<forall>x \<in> set (browsers url). popen_error w x = Some FileNotFoundError)"
  then have "try_browsers (browsers url) ?w1 =
     (Inr False, ?w1\<lparr>effects := effects ?w1 @ map (\<lambda>c. Popen c (Some FileNotFoundError)) (browsers url)\<rparr>)"
    by (intro try_browsers_all_missing) simp_all
  with a assms show "open_browser url w =
          (Inr (), w\<lparr>effects := effects w @ Print (''Opening in app mode at '' @ url) #
                      map (\<lambda>x. Popen x (Some FileNotFoundError)) (browsers url) @
                      [Print (''Opening in browser at '' @ url), WebbrowserOpen url]\<rparr>)"
    by (simp add: open_browser_app_linux)
next
  assume "sys_platform w \<noteq> ''linux''"
  with assms show "open_browser url w =
          (Inr (), w\<lparr>effects := effects w @ [Print (''Opening in app mode at '' @ url),
                                              Print (''Opening in browser at '' @ url),
                                              WebbrowserOpen url]\<rparr>)"
    by (simp add: open_browser_app_other)
next
  let ?w1 = "w\<lparr>effects := effects w @ [Print (''Opening in app mode at '' @ url)]\<rparr>"
  assume a: "sys_platform w = ''linux'' \<and> browsers url = pre @ c # post
        \<and> (\<forall>x \<in> set pre. popen_error w x = Some FileNotFoundError)
        \<and> popen_error w c = Some e \<and> e \<noteq> FileNotFoundError"
  then have "try_browsers (pre @ c # post) ?w1 =
     (Inl e, ?w1\<lparr>effects := effects ?w1 @ map (\<lambda>x. Popen x (Some FileNotFoundError)) pre @ [Popen c (Some e)]\<rparr>)"
    by (intro try_browsers_first_error) simp_all
  with a assms show "open_browser url w =
          (Inl e, w\<lparr>effects := effects w @ Print (''Opening in app mode at '' @ url) #
                     map (\<lambda>x. Popen x (Some FileNotFoundError)) pre @ [Popen c (Some e)]\<rparr>)"
    by (simp add: open_browser_app_linux)
qed

text \<open>
  With only \<open>chromium\<close> installed, \<open>google-chrome\<close> is tried, then \<open>chromium\<close>
  spawns and ends the procedure; with no browser installed all three are tried and the
  default browser is opened.
\<close>

theorem open_browser_app_mode_witness:
  "open_browser demo_url (app_world\<lparr>popen_error := chromium_installed\<rparr>) =
     (Inr (), app_world\<lparr>popen_error := chromium_installed,
                effects := [Print ''Opening in app mode at http://127.0.0.1:40001'',
                            Popen [''google-chrome'', ''--app=http://127.0.0.1:40001''] (Some FileNotFoundError),
                            Popen [''chromium'', ''--app=http://127.0.0.1:40001''] None]\<rparr>)
   \<and> open_browser demo_url app_world =
     (Inr (), app_world\<lparr>effects := [Print ''Opening in app mode at http://127.0.0.1:40001'',
                            Popen [''google-chrome'', ''--app=http://127.0.0.1:40001''] (Some FileNotFoundError),
                            Popen [''chromium'', ''--app=http://127.0.0.1:40001''] (Some FileNotFoundError),
                            Popen [''firefox'', ''--new-window'', ''http://127.0.0.1:40001''] (Some FileNotFoundError),
                            Print ''Opening in browser at http://127.0.0.1:40001'',
                            WebbrowserOpen ''http://127.0.0.1:40001'']\<rparr>)"
proof -
  let ?w = "app_world\<lparr>popen_error := chromium_installed\<rparr>"
  let ?pre = "[[''google-chrome'', ''--app='' @ demo_url]]"
  let ?c = "[''chromium'', ''--app='' @ demo_url]"
  let ?post = "[[''firefox'', ''--new-window'', demo_url]]"
  have h: "sys_platform ?w = ''linux'' \<and> browsers demo_url = ?pre @ ?c # ?post
        \<and> (\<forall>x \<in> set ?pre. popen_error ?w x = Some FileNotFoundError) \<and> popen_error ?w ?c = None"
    by (simp add: app_world_facts browsers_def chromium_installed_def)
  from open_browser_app_mode [OF app_world_mode(1) [of chromium_installed], where url = demo_url
      and pre = ?pre and c = ?c and post = ?post] h
  have "open_browser demo_url ?w =
          (Inr (), ?w\<lparr>effects := effects ?w @ Print (''Opening in app mode at '' @ demo_url) #
                      map (\<lambda>x. Popen x (Some FileNotFoundError)) ?pre @ [Popen ?c None]\<rparr>)"
    by blast
  then have 1: "open_browser demo_url ?w =
     (Inr (), app_world\<lparr>popen_error := chromium_installed,
                effects := [Print ''Opening in app mode at http://127.0.0.1:40001'',
                            Popen [''google-chrome'', ''--app=http://127.0.0.1:40001''] (Some FileNotFoundError),
                            Popen [''chromium'', ''--app=http://127.0.0.1:40001''] None]\<rparr>)"
    by (simp add: app_world_facts demo_url_def)
  have h2: "sys_platform app_world = ''linux''
        \<and> (\<forall>x \<in> set (browsers demo_url). popen_error app_world x = Some FileNotFoundError)"
    by (simp add: app_world_facts)
  from open_browser_app_mode [OF app_world_mode(2), where url = demo_url] h2
  have "open_browser demo_url app_world =
          (Inr (), app_world\<lparr>effects := effects app_world @ Print (''Opening in app mode at '' @ demo_url) #
                      map (\<lambda>x. Popen x (Some FileNotFoundError)) (browsers demo_url) @
                      [Print (''Opening in browser at '' @ demo_url), WebbrowserOpen demo_url]\<rparr>)"
    by blast
  then have 2: "open_browser demo_url app_world =
     (Inr (), app_world\<lparr>effects := [Print ''Opening in app mode at http://127.0.0.1:40001'',
                            Popen [''google-chrome'', ''--app=http://127.0.0.1:40001''] (Some FileNotFoundError),
                            Popen [''chromium'', ''--app=http://127.0.0.1:40001''] (Some FileNotFoundError),
                            Popen [''firefox'', ''--new-window'', ''http://127.0.0.1:40001''] (Some FileNotFoundError),
                            Print ''Opening in browser at http://127.0.0.1:40001'',
                            WebbrowserOpen ''http://127.0.0.1:40001'']\<rparr>)"
    by (simp add: app_world_facts demo_url_def browsers_def)
  from 1 2 show ?thesis
    by (rule conjI)
qed

text \<open>
  Claim C7 as stated fails: every command fails to spawn, the last with
  \<open>PermissionError\<close>, and the default browser is not opened.
\<close>

theorem open_browser_app_mode_counterexample:
  "popen_error (app_world\<lparr>popen_error := firefox_denied\<rparr>) [''google-chrome'', ''--app='' @ demo_url] =
     Some FileNotFoundError
   \<and> popen_error (app_world\<lparr>popen_error := firefox_denied\<rparr>) [''chromium'', ''--app='' @ demo_url] =
     Some FileNotFoundError
   \<and> popen_error (app_world\<lparr>popen_error := firefox_denied\<rparr>) [''firefox'', ''--new-window'', demo_url] =
     Some PermissionError
   \<and> open_browser demo_url (app_world\<lparr>popen_error := firefox_denied\<rparr>) =
     (Inl PermissionError,
      app_world\<lparr>popen_error := firefox_denied,
                effects := [Print ''Opening in app mode at http://127.0.0.1:40001'',
                            Popen [''google-chrome'', ''--app=http://127.0.0.1:40001''] (Some FileNotFoundError),
                            Popen [''chromium'', ''--app=http://127.0.0.1:40001''] (Some FileNotFoundError),
                            Popen [''firefox'', ''--new-window'', ''http://127.0.0.1:40001'']
                              (Some PermissionError)]\<rparr>)"
proof -
  let ?w = "app_world\<lparr>popen_error := firefox_denied\<rparr>"
  let ?w1 = "?w\<lparr>effects := effects ?w @ [Print (''Opening in app mode at '' @ demo_url)]\<rparr>"
  let ?pre = "[[''google-chrome'', ''--app='' @ demo_url], [''chromium'', ''--app='' @ demo_url]]"
  let ?c = "[''firefox'', ''--new-window'', demo_url]"
  have "try_browsers (?pre @ ?c # []) ?w1 =
     (Inl PermissionError, ?w1\<lparr>effects := effects ?w1 @ map (\<lambda>x. Popen x (Some FileNotFoundError)) ?pre @
         [Popen ?c (Some PermissionError)]\<rparr>)"
    by (rule try_browsers_first_error) (simp_all add: firefox_denied_def demo_url_def)
  then have "open_browser demo_url ?w =
     (Inl PermissionError,
      app_world\<lparr>popen_error := firefox_denied,
                effects := [Print ''Opening in app mode at http://127.0.0.1:40001'',
                            Popen [''google-chrome'', ''--app=http://127.0.0.1:40001''] (Some FileNotFoundError),
                            Popen [''chromium'', ''--app=http://127.0.0.1:40001''] (Some FileNotFoundError),
                            Popen [''firefox'', ''--new-window'', ''http://127.0.0.1:40001'']
                              (Some PermissionError)]\<rparr>)"
    by (simp add: open_browser_app_linux [OF app_world_mode(1) app_world_facts(1)] browsers_def
          app_world_facts demo_url_def)
  then show ?thesis
    by (simp add: firefox_denied_def demo_url_def)
qed

subsection \<open>C8: mode none\<close>

text \<open>
  Claim C8. With \<open>FASTHTML_BROWSER=none\<close>, \<open>open_browser\<close> returns normally after
  printing two lines, the first with the URL; it calls neither \<open>Popen\<close> nor
  \<open>webbrowser.open\<close>.
\<close>

theorem open_browser_none:
  "environ w ''FASTHTML_BROWSER'' = Some ''none'' \<Longrightarrow>
   open_browser url w =
     (Inr (), w\<lparr>effects := effects w @ [Print (''Server running at '' @ url),
                                         Print ''Browser auto-open disabled. Please open manually.'']\<rparr>)"
proof -
  assume "environ w ''FASTHTML_BROWSER'' = Some ''none''"
  moreover have "lower ''none'' = ''none''"
    by code_simp
  ultimately show ?thesis
    by (simp add: open_browser_def environ_get_def print_def)
qed

text \<open>The two lines printed for \<open>http://127.0.0.1:40001\<close>.\<close>

theorem open_browser_none_witness:
  "open_browser demo_url (demo_world\<lparr>environ := [''FASTHTML_BROWSER'' \<mapsto> ''none'']\<rparr>) =
     (Inr (), demo_world\<lparr>environ := [''FASTHTML_BROWSER'' \<mapsto> ''none''],
                effects := [Print ''Server running at http://127.0.0.1:40001'',
                            Print ''Browser auto-open disabled. Please open manually.'']\<rparr>)"
proof -
  let ?w = "demo_world\<lparr>environ := [''FASTHTML_BROWSER'' \<mapsto> ''none'']\<rparr>"
  have e: "environ ?w ''FASTHTML_BROWSER'' = Some ''none''"
    by simp
  have f: "effects ?w = []"
    by (simp add: demo_world_def)
  from open_browser_none [OF e, of demo_url] show ?thesis
    by (simp add: f demo_url_def)
qed

subsection \<open>C9: the counter\<close>

text \<open>
  Claim C9. The counter is zero after start-up; a request to \<open>/increment\<close> adds exactly
  one, and a request to any other route leaves it as it is; so after any requests the
  counter is the number of \<open>/increment\<close> requests served, and is never negative.
\<close>

theorem counter_invariant:
  "(fst (startup w0) = Inr s0 \<longrightarrow> counter s0 = 0)
   \<and> counter (snd (handle w r s)) = (if r = Post_increment then counter s + 1 else counter s)
   \<and> (fst (startup w0) = Inr s0 \<longrightarrow>
        counter (serve reqs s0) = int (length (filter (\<lambda>x. snd x = Post_increment) reqs))
        \<and> 0 \<le> counter (serve reqs s0))"
  by (simp add: handle_counter serve_counter startup_counter)

text \<open>Five requests, two of them to \<open>/increment\<close>.\<close>

theorem counter_invariant_witness:
  "fst (startup demo_world) = Inr (initial_app 40001 ''127.0.0.1'' ''/home/u'')
   \<and> counter (initial_app 40001 ''127.0.0.1'' ''/home/u'') = 0
   \<and> counter (serve [(demo_world, Post_increment), (demo_world, Get_index),
                      (demo_world, Post_add_todo ''buy milk''), (demo_world, Get_system_info),
                      (demo_world, Post_increment)]
               (initial_app 40001 ''127.0.0.1'' ''/home/u'')) = 2"
proof -
  let ?s0 = "initial_app 40001 ''127.0.0.1'' ''/home/u''"
  let ?reqs = "[(demo_world, Post_increment), (demo_world, Get_index),
                (demo_world, Post_add_todo ''buy milk''), (demo_world, Get_system_info),
                (demo_world, Post_increment)]"
  have p: "fst (resolve_port demo_world) = Inr 40001"
    by (simp add: resolve_port_def environ_get_def find_free_port_eq demo_world_def)
  have n: "\<not> environ_truthy (environ demo_world) ''APPIMAGE''"
    by (simp add: environ_truthy_def demo_world_def)
  have s: "fst (startup demo_world) = Inr ?s0"
    by (simp add: startup_eq p setup_work_dir_plain [OF n]) (simp add: demo_world_def environ_get_def)
  note th = counter_invariant [of demo_world ?s0 _ _ _ ?reqs]
  from th s have 1: "counter ?s0 = 0"
    by blast
  from th s have "counter (serve ?reqs ?s0) = int (length (filter (\<lambda>x. snd x = Post_increment) ?reqs))"
    by blast
  then have 2: "counter (serve ?reqs ?s0) = 2"
    by simp
  from s 1 2 show ?thesis
    by blast
qed

subsection \<open>C10: the mode is lower-cased\<close>

text \<open>
  Claim C10. Two values of \<open>FASTHTML_BROWSER\<close> that agree after lower-casing make
  \<open>open_browser\<close> return the same and do the same.
\<close>

theorem open_browser_case_insensitive:
  "lower v = lower v' \<Longrightarrow>
   fst (open_browser url (w\<lparr>environ := (environ w)(''FASTHTML_BROWSER'' \<mapsto> v)\<rparr>)) =
   fst (open_browser url (w\<lparr>environ := (environ w)(''FASTHTML_BROWSER'' \<mapsto> v')\<rparr>))
   \<and> effects (snd (open_browser url (w\<lparr>environ := (environ w)(''FASTHTML_BROWSER'' \<mapsto> v)\<rparr>))) =
     effects (snd (open_browser url (w\<lparr>environ := (environ w)(''FASTHTML_BROWSER'' \<mapsto> v')\<rparr>)))"
proof -
  assume a: "lower v = lower v'"
  let ?w' = "w\<lparr>environ := (environ w)(''FASTHTML_BROWSER'' \<mapsto> v')\<rparr>"
  let ?e = "(environ w)(''FASTHTML_BROWSER'' \<mapsto> v)"
  have "lower (environ_get ?e ''FASTHTML_BROWSER'' ''default'') =
        lower (environ_get (environ ?w') ''FASTHTML_BROWSER'' ''default'')"
    using a by (simp add: environ_get_def)
  from open_browser_environ [OF this, where url = url] show ?thesis
    by simp
qed

text \<open>\<open>NONE\<close> prints the two lines of \<open>none\<close>; \<open>App\<close> returns as \<open>app\<close> does.\<close>

theorem open_browser_case_insensitive_witness:
  "effects (snd (open_browser demo_url
       (demo_world\<lparr>environ := (environ demo_world)(''FASTHTML_BROWSER'' \<mapsto> ''NONE'')\<rparr>))) =
     [Print ''Server running at http://127.0.0.1:40001'',
      Print ''Browser auto-open disabled. Please open manually.'']
   \<and> fst (open_browser demo_url
       (demo_world\<lparr>environ := (environ demo_world)(''FASTHTML_BROWSER'' \<mapsto> ''App'')\<rparr>)) =
     fst (open_browser demo_url
       (demo_world\<lparr>environ := (environ demo_world)(''FASTHTML_BROWSER'' \<mapsto> ''app'')\<rparr>))"
proof -
  let ?w = "\<lambda>v. demo_world\<lparr>environ := (environ demo_world)(''FASTHTML_BROWSER'' \<mapsto> v)\<rparr>"
  have l: "lower ''NONE'' = lower ''none''" "lower ''App'' = lower ''app''"
    by code_simp+
  have m: "lower (environ_get (environ (?w ''none'')) ''FASTHTML_BROWSER'' ''default'') = ''none''"
    by (simp add: environ_get_def lower_none)
  have f: "effects (?w ''none'') = []"
    by (simp add: demo_world_def)
  have "effects (snd (open_browser demo_url (?w ''none''))) =
     [Print ''Server running at http://127.0.0.1:40001'',
      Print ''Browser auto-open disabled. Please open manually.'']"
    unfolding open_browser_none_mode [OF m] by (simp add: f demo_url_def)
  with open_browser_case_insensitive [OF l(1), of demo_url demo_world]
  have 1: "effects (snd (open_browser demo_url (?w ''NONE''))) =
     [Print ''Server running at http://127.0.0.1:40001'',
      Print ''Browser auto-open disabled. Please open manually.'']"
    by simp
  from open_browser_case_insensitive [OF l(2), of demo_url demo_world]
  have 2: "fst (open_browser demo_url (?w ''App'')) = fst (open_browser demo_url (?w ''app''))"
    by (rule conjunct1)
  from 1 2 show ?thesis
    by (rule conjI)
qed

end
